theory Spec2Isabelle
  imports Complex_Main "HOL-Library.Word"
begin

section \<open>Basic data\<close>

text \<open>
  A JavaScript string is a sequence of UTF-16 code units.  A code unit is modelled as a
  natural number, and \<open>js\<close> turns an ASCII literal into the code units of the
  corresponding JavaScript string.
\<close>

type_synonym jschar = nat
type_synonym jstring = "jschar list"

definition js :: "string \<Rightarrow> jstring" where
  "js s = map of_char s"

text \<open>
  A JavaScript number: \<open>NaN\<close>, the two infinities, or a finite value, kept as the
  rational number it denotes.
\<close>

datatype num = NaN | NegInf | PosInf | Fin rat

section \<open>Summary storage (storage.js)\<close>

text \<open>
  \<open>chrome.storage.local\<close> holds, under the key \<open>summaries\<close>, an object that maps
  a policy URL to \<open>{ summary, hash, date }\<close>.  The key may be absent (after
  \<open>clearSummaries\<close>, or before the first save), which every reader replaces by the
  empty object (\<open>const { summaries = {} } = ...\<close>).  The type of the stored summary is
  left open: the storage functions never look inside it.  The object is modelled as a
  map whose keys are URLs; the names every JavaScript object inherits (\<open>toString\<close>,
  \<open>constructor\<close>, ...), none of which is a URL, are not in the model.
\<close>

record 'r cache_entry =
  entry_summary :: 'r
  entry_hash :: jstring
  entry_date :: int

type_synonym 'r summaries = "jstring \<rightharpoonup> 'r cache_entry"
type_synonym 'r storage = "'r summaries option"

definition read_summaries :: "'r storage \<Rightarrow> 'r summaries" where
  "read_summaries st = (case st of None \<Rightarrow> Map.empty | Some m \<Rightarrow> m)"

text \<open>\<open>saveSummary(url, summary, hash)\<close>; \<open>now\<close> is the value of \<open>Date.now()\<close>.\<close>

definition saveSummary :: "int \<Rightarrow> jstring \<Rightarrow> 'r \<Rightarrow> jstring \<Rightarrow> 'r storage \<Rightarrow> 'r storage" where
  "saveSummary now url summary hash st =
     (let summaries = read_summaries st
      in Some (summaries(url \<mapsto> \<lparr>entry_summary = summary, entry_hash = hash, entry_date = now\<rparr>)))"

text \<open>\<open>getSummary(url)\<close>: \<open>summaries[url] || null\<close>; a stored entry is an object, hence truthy.\<close>

definition getSummary :: "jstring \<Rightarrow> 'r storage \<Rightarrow> 'r cache_entry option" where
  "getSummary url st = read_summaries st url"

text \<open>\<open>removeSummary(url)\<close> returns its boolean result and the storage afterwards.\<close>

definition removeSummary :: "jstring \<Rightarrow> 'r storage \<Rightarrow> bool \<times> 'r storage" where
  "removeSummary url st =
     (let summaries = read_summaries st
      in case summaries url of
           Some e \<Rightarrow> (True, Some (summaries(url := None)))
         | None \<Rightarrow> (False, st))"

definition clearSummaries :: "'r storage \<Rightarrow> 'r storage" where
  "clearSummaries st = None"

section \<open>JavaScript strings, numbers and values\<close>

subsection \<open>Strings\<close>

text \<open>
  White space as \<open>String.prototype.trim\<close> and the regular-expression class \<open>\s\<close> see it:
  the \<open>WhiteSpace\<close> and \<open>LineTerminator\<close> code points of ECMAScript.
\<close>

definition is_space :: "jschar \<Rightarrow> bool" where
  "is_space c \<longleftrightarrow>
     c = 0x09 \<or> c = 0x0A \<or> c = 0x0B \<or> c = 0x0C \<or> c = 0x0D \<or> c = 0x20 \<or> c = 0xA0 \<or>
     c = 0x1680 \<or> (0x2000 \<le> c \<and> c \<le> 0x200A) \<or> c = 0x2028 \<or> c = 0x2029 \<or>
     c = 0x202F \<or> c = 0x205F \<or> c = 0x3000 \<or> c = 0xFEFF"

definition is_digit :: "jschar \<Rightarrow> bool" where
  "is_digit c \<longleftrightarrow> 0x30 \<le> c \<and> c \<le> 0x39"

definition is_alpha :: "jschar \<Rightarrow> bool" where
  "is_alpha c \<longleftrightarrow> (0x41 \<le> c \<and> c \<le> 0x5A) \<or> (0x61 \<le> c \<and> c \<le> 0x7A)"

text \<open>The class \<open>\w\<close>, which decides the word boundary \<open>\b\<close>.\<close>

definition is_word :: "jschar \<Rightarrow> bool" where
  "is_word c \<longleftrightarrow> is_alpha c \<or> is_digit c \<or> c = 0x5F"

definition trimEnd :: "jstring \<Rightarrow> jstring" where
  "trimEnd s = rev (dropWhile is_space (rev s))"

definition trim :: "jstring \<Rightarrow> jstring" where
  "trim s = trimEnd (dropWhile is_space s)"

definition startsWith :: "jstring \<Rightarrow> jstring \<Rightarrow> bool" where
  "startsWith s p \<longleftrightarrow> take (length p) s = p"

definition endsWith :: "jstring \<Rightarrow> jstring \<Rightarrow> bool" where
  "endsWith s p \<longleftrightarrow> length p \<le> length s \<and> drop (length s - length p) s = p"

text \<open>\<open>s.indexOf(c)\<close> and \<open>s.lastIndexOf(c)\<close> for a single code unit; \<open>None\<close> is \<open>-1\<close>.\<close>

fun indexOf :: "jstring \<Rightarrow> jschar \<Rightarrow> nat option" where
  "indexOf [] c = None"
| "indexOf (x # xs) c = (if x = c then Some 0 else map_option Suc (indexOf xs c))"

definition lastIndexOf :: "jstring \<Rightarrow> jschar \<Rightarrow> nat option" where
  "lastIndexOf s c = map_option (\<lambda>i. length s - 1 - i) (indexOf (rev s) c)"

text \<open>\<open>s.slice(a, b)\<close> for \<open>0 \<le> a\<close> and \<open>0 \<le> b\<close>.\<close>

definition slice :: "jstring \<Rightarrow> nat \<Rightarrow> nat \<Rightarrow> jstring" where
  "slice s a b = take (b - a) (drop a s)"

text \<open>\<open>xs.join(sep)\<close> on an array of strings.\<close>

fun join :: "jstring \<Rightarrow> jstring list \<Rightarrow> jstring" where
  "join sep [] = []"
| "join sep [x] = x"
| "join sep (x # y # ys) = x @ sep @ join sep (y # ys)"

subsection \<open>Numbers\<close>

definition isNaN :: "num \<Rightarrow> bool" where
  "isNaN n \<longleftrightarrow> n = NaN"

text \<open>\<open>Math.round\<close>: the nearest integer, a tie going up.\<close>

fun math_round :: "num \<Rightarrow> num" where
  "math_round (Fin r) = Fin (of_int \<lfloor>r + 1 / 2\<rfloor>)"
| "math_round n = n"

fun math_min :: "num \<Rightarrow> num \<Rightarrow> num" where
  "math_min NaN b = NaN"
| "math_min a NaN = NaN"
| "math_min NegInf b = NegInf"
| "math_min a NegInf = NegInf"
| "math_min PosInf b = b"
| "math_min a PosInf = a"
| "math_min (Fin a) (Fin b) = Fin (min a b)"

fun math_max :: "num \<Rightarrow> num \<Rightarrow> num" where
  "math_max NaN b = NaN"
| "math_max a NaN = NaN"
| "math_max PosInf b = PosInf"
| "math_max a PosInf = PosInf"
| "math_max NegInf b = b"
| "math_max a NegInf = a"
| "math_max (Fin a) (Fin b) = Fin (max a b)"

text \<open>The comparison \<open>a < b\<close> of two numbers; it is false when either is \<open>NaN\<close>.\<close>

fun num_less :: "num \<Rightarrow> num \<Rightarrow> bool" where
  "num_less NaN b = False"
| "num_less a NaN = False"
| "num_less a NegInf = False"
| "num_less NegInf b = True"
| "num_less PosInf b = False"
| "num_less a PosInf = True"
| "num_less (Fin a) (Fin b) = (a < b)"

text \<open>
  \<open>parseInt(s, 10)\<close>: leading white space and a sign are skipped, the longest prefix of
  decimal digits is read, and without a digit the result is \<open>NaN\<close>.
\<close>

definition digits_value :: "jstring \<Rightarrow> nat" where
  "digits_value ds = foldl (\<lambda>a d. 10 * a + (d - 0x30)) 0 ds"

definition parseInt10 :: "jstring \<Rightarrow> num" where
  "parseInt10 s =
     (let t = dropWhile is_space s;
          neg = (t \<noteq> [] \<and> hd t = 0x2D);
          u = (if t \<noteq> [] \<and> (hd t = 0x2D \<or> hd t = 0x2B) then tl t else t);
          ds = takeWhile is_digit u
      in if ds = [] then NaN
         else Fin (if neg then - of_nat (digits_value ds) else of_nat (digits_value ds)))"

subsection \<open>Values\<close>

text \<open>
  The values that \<open>response.json()\<close> and \<open>JSON.parse\<close> produce, and \<open>undefined\<close>.  An
  object is the list of its own properties, each key once.
\<close>

datatype jv =
    Undefined
  | Null
  | Bool bool
  | Num num
  | Str jstring
  | Arr "jv list"
  | Obj "(jstring \<times> jv) list"

fun truthy :: "jv \<Rightarrow> bool" where
  "truthy Undefined = False"
| "truthy Null = False"
| "truthy (Bool b) = b"
| "truthy (Num n) = (n \<noteq> NaN \<and> n \<noteq> Fin 0)"
| "truthy (Str s) = (s \<noteq> [])"
| "truthy (Arr xs) = True"
| "truthy (Obj kvs) = True"

fun is_string :: "jv \<Rightarrow> bool" where
  "is_string (Str s) = True"
| "is_string v = False"

fun is_number :: "jv \<Rightarrow> bool" where
  "is_number (Num n) = True"
| "is_number v = False"

text \<open>\<open>typeof v === "object"\<close> holds of objects, arrays and \<open>null\<close>.\<close>

fun is_object :: "jv \<Rightarrow> bool" where
  "is_object (Obj kvs) = True"
| "is_object (Arr xs) = True"
| "is_object Null = True"
| "is_object v = False"

fun isArray :: "jv \<Rightarrow> bool" where
  "isArray (Arr xs) = True"
| "isArray v = False"

fun nullish :: "jv \<Rightarrow> bool" where
  "nullish Undefined = True"
| "nullish Null = True"
| "nullish v = False"

text \<open>
  \<open>v.k\<close> for the property names the summarizer reads (\<open>choices\<close>, \<open>message\<close>,
  \<open>content\<close>, \<open>text\<close>, \<open>privacy_score\<close>, ...) on a value that is neither \<open>null\<close> nor
  \<open>undefined\<close>: only an object can have such a property.  \<open>opt_get\<close> is \<open>v?.k\<close>.
\<close>

fun get_prop :: "jv \<Rightarrow> jstring \<Rightarrow> jv" where
  "get_prop (Obj kvs) k = (case map_of kvs k of Some v \<Rightarrow> v | None \<Rightarrow> Undefined)"
| "get_prop v k = Undefined"

definition opt_get :: "jv \<Rightarrow> jstring \<Rightarrow> jv" where
  "opt_get v k = (if nullish v then Undefined else get_prop v k)"

text \<open>\<open>v?.[0]\<close>: the first element of an array, the first code unit of a string, the
  property \<open>"0"\<close> of an object.\<close>

fun opt_index0 :: "jv \<Rightarrow> jv" where
  "opt_index0 (Arr (x # xs)) = x"
| "opt_index0 (Str (c # cs)) = Str [c]"
| "opt_index0 (Obj kvs) = get_prop (Obj kvs) (js ''0'')"
| "opt_index0 v = Undefined"

text \<open>\<open>a || b\<close> and \<open>a ?? b\<close> on values.\<close>

definition or_else :: "jv \<Rightarrow> jv \<Rightarrow> jv" where
  "or_else a b = (if truthy a then a else b)"

definition nullish_else :: "jv \<Rightarrow> jv \<Rightarrow> jv" where
  "nullish_else a b = (if nullish a then b else a)"

subsection \<open>The platform\<close>

text \<open>
  Three built-ins are parameters of the model: \<open>JSON.parse\<close> (\<open>None\<close> when it throws),
  the conversion of a string to a number inside \<open>Number(s)\<close>, and the conversion of a
  number to a string inside \<open>String(n)\<close>.
\<close>

record platform =
  JSON_parse :: "jstring \<Rightarrow> jv option"
  StringToNumber :: "jstring \<Rightarrow> num"
  NumberToString :: "num \<Rightarrow> jstring"

datatype error = TypeError | MissingFields | OutOfRange

definition bind :: "error + 'a \<Rightarrow> ('a \<Rightarrow> error + 'b) \<Rightarrow> error + 'b" where
  "bind x f = (case x of Inl e \<Rightarrow> Inl e | Inr a \<Rightarrow> f a)"

text \<open>
  \<open>String(v)\<close>.  An array is joined with commas, its \<open>null\<close> and \<open>undefined\<close> elements
  giving the empty string.  An object parsed from JSON inherits \<open>toString\<close> unless it
  has a property of that name, which is then not callable, and the conversion throws.
\<close>

fun to_string :: "platform \<Rightarrow> jv \<Rightarrow> error + jstring"
  and join_elems :: "platform \<Rightarrow> jv list \<Rightarrow> error + jstring" where
  "to_string P Undefined = Inr (js ''undefined'')"
| "to_string P Null = Inr (js ''null'')"
| "to_string P (Bool b) = Inr (if b then js ''true'' else js ''false'')"
| "to_string P (Num n) = Inr (NumberToString P n)"
| "to_string P (Str s) = Inr s"
| "to_string P (Arr xs) = join_elems P xs"
| "to_string P (Obj kvs) =
     (if map_of kvs (js ''toString'') \<noteq> None then Inl TypeError
      else Inr (js ''[object Object]''))"
| "join_elems P [] = Inr []"
| "join_elems P (x # xs) =
     bind (if nullish x then Inr [] else to_string P x) (\<lambda>a.
       if xs = [] then Inr a
       else bind (join_elems P xs) (\<lambda>b. Inr (a @ js '','' @ b)))"

text \<open>\<open>Number(v)\<close>; an array or object is first converted to a string.\<close>

fun to_number :: "platform \<Rightarrow> jv \<Rightarrow> error + num" where
  "to_number P Undefined = Inr NaN"
| "to_number P Null = Inr (Fin 0)"
| "to_number P (Bool b) = Inr (Fin (if b then 1 else 0))"
| "to_number P (Num n) = Inr n"
| "to_number P (Str s) = Inr (StringToNumber P s)"
| "to_number P v = bind (to_string P v) (\<lambda>s. Inr (StringToNumber P s))"

section \<open>Regular expressions\<close>

text \<open>
  The regular expressions of \<open>ai.js\<close> are kept as syntax trees and run by a backtracking
  matcher.  \<open>Chr p\<close> matches one code unit that satisfies \<open>p\<close>, \<open>Star\<close> is the greedy
  \<open>*\<close>, \<open>Cap\<close> is the capturing group (no expression here has more than one), \<open>Bol\<close> and
  \<open>Eol\<close> are \<open>^\<close> and \<open>$\<close> without the multiline flag, \<open>WordB\<close> is \<open>\b\<close>.
\<close>

datatype re =
    Chr "jschar \<Rightarrow> bool"
  | Eps
  | Seq re re
  | Alt re re
  | Star re
  | Cap re
  | Bol
  | Eol
  | WordB

text \<open>
  A matcher state: the code unit before the current position (none at the start of the
  input), the input from the current position on, and what the group captured.
\<close>

record mstate =
  m_prev :: "jschar option"
  m_rest :: jstring
  m_cap :: "jstring option"

text \<open>
  \<open>rmatch r s\<close> lists the states in which a match of \<open>r\<close> begun in \<open>s\<close> can end, in the
  order in which backtracking tries them; the head of the list is the match found.
  A greedy star first tries one more round of its body, then to stop; a round that
  consumes nothing is rejected.  The first argument of \<open>star\<close> bounds the number of
  rounds by the length of the remaining input, which rounds that consume can never exceed.
\<close>

fun star :: "'f list \<Rightarrow> (mstate \<Rightarrow> mstate list) \<Rightarrow> mstate \<Rightarrow> mstate list" where
  "star [] f s = [s]"
| "star (_ # fuel) f s =
     concat (map (\<lambda>s'. if length (m_rest s') < length (m_rest s) then star fuel f s' else [])
                 (f s)) @ [s]"

definition word_at :: "jschar option \<Rightarrow> bool" where
  "word_at c = (case c of None \<Rightarrow> False | Some x \<Rightarrow> is_word x)"

definition next_char :: "mstate \<Rightarrow> jschar option" where
  "next_char s = (case m_rest s of [] \<Rightarrow> None | c # cs \<Rightarrow> Some c)"

primrec rmatch :: "re \<Rightarrow> mstate \<Rightarrow> mstate list" where
  "rmatch (Chr p) s =
     (case m_rest s of
        [] \<Rightarrow> []
      | c # cs \<Rightarrow> if p c then [s\<lparr>m_prev := Some c, m_rest := cs\<rparr>] else [])"
| "rmatch Eps s = [s]"
| "rmatch (Seq r1 r2) s = concat (map (rmatch r2) (rmatch r1 s))"
| "rmatch (Alt r1 r2) s = rmatch r1 s @ rmatch r2 s"
| "rmatch (Star r) s = star (m_rest s) (rmatch r) s"
| "rmatch (Cap r) s =
     map (\<lambda>s'. s'\<lparr>m_cap := Some (take (length (m_rest s) - length (m_rest s')) (m_rest s))\<rparr>)
         (rmatch r s)"
| "rmatch Bol s = (if m_prev s = None then [s] else [])"
| "rmatch Eol s = (if m_rest s = [] then [s] else [])"
| "rmatch WordB s = (if word_at (m_prev s) \<noteq> word_at (next_char s) then [s] else [])"

text \<open>\<open>r+\<close>, \<open>r?\<close>, \<open>r{0,n}\<close> and \<open>r{1,n+1}\<close>, all greedy, and a sequence.\<close>

definition Plus :: "re \<Rightarrow> re" where
  "Plus r = Seq r (Star r)"

definition Opt :: "re \<Rightarrow> re" where
  "Opt r = Alt r Eps"

primrec at_most :: "nat \<Rightarrow> re \<Rightarrow> re" where
  "at_most 0 r = Eps"
| "at_most (Suc n) r = Opt (Seq r (at_most n r))"

fun seqs :: "re list \<Rightarrow> re" where
  "seqs [] = Eps"
| "seqs [r] = r"
| "seqs (r # rs) = Seq r (seqs rs)"

fun alts :: "re list \<Rightarrow> re" where
  "alts [] = Eps"
| "alts [r] = r"
| "alts (r # rs) = Alt r (alts rs)"

text \<open>
  A literal character, and a lower-case ASCII letter under the flag \<open>i\<close>: it matches
  itself and its upper-case form (no other code unit canonicalizes to an ASCII letter).
\<close>

definition lit :: "char \<Rightarrow> re" where
  "lit x = Chr (\<lambda>c. c = of_char x)"

definition ci :: "char \<Rightarrow> re" where
  "ci x = Chr (\<lambda>c. c = of_char x \<or> c + 32 = of_char x)"

definition word :: "string \<Rightarrow> re" where
  "word w = seqs (map lit w)"

definition word_ci :: "string \<Rightarrow> re" where
  "word_ci w = seqs (map ci w)"

text \<open>
  \<open>r.exec(s)\<close> without the flag \<open>g\<close>: the match that starts leftmost.  The result is
  the text before the match and the state at its end.
\<close>

fun re_search :: "re \<Rightarrow> jschar option \<Rightarrow> jstring \<Rightarrow> jstring \<Rightarrow> (jstring \<times> mstate) option" where
  "re_search r p pre [] =
     (case rmatch r \<lparr>m_prev = p, m_rest = [], m_cap = None\<rparr> of
        [] \<Rightarrow> None
      | x # xs \<Rightarrow> Some (pre, x))"
| "re_search r p pre (c # cs) =
     (case rmatch r \<lparr>m_prev = p, m_rest = c # cs, m_cap = None\<rparr> of
        [] \<Rightarrow> re_search r (Some c) (pre @ [c]) cs
      | x # xs \<Rightarrow> Some (pre, x))"

definition re_exec :: "re \<Rightarrow> jstring \<Rightarrow> (jstring \<times> mstate) option" where
  "re_exec r s = re_search r None [] s"

definition re_test :: "re \<Rightarrow> jstring \<Rightarrow> bool" where
  "re_test r s \<longleftrightarrow> re_exec r s \<noteq> None"

text \<open>\<open>s.replace(r, rep)\<close> without the flag \<open>g\<close>, for a replacement without \<open>$\<close>.\<close>

definition re_replace :: "re \<Rightarrow> jstring \<Rightarrow> jstring \<Rightarrow> jstring" where
  "re_replace r rep s =
     (case re_exec r s of
        None \<Rightarrow> s
      | Some (pre, st) \<Rightarrow> pre @ rep @ m_rest st)"

text \<open>
  \<open>s.replace(r, rep)\<close> with the flag \<open>g\<close>: every match from left to right is
  replaced; behind an empty match the next code unit is copied and the search goes on
  after it.  The second argument is the code unit before the current position.
\<close>

function re_replace_all :: "re \<Rightarrow> jstring \<Rightarrow> jschar option \<Rightarrow> jstring \<Rightarrow> jstring" where
  "re_replace_all r rep p s =
     (case rmatch r \<lparr>m_prev = p, m_rest = s, m_cap = None\<rparr> of
        x # xs \<Rightarrow>
          if length (m_rest x) < length s then rep @ re_replace_all r rep (m_prev x) (m_rest x)
          else (case s of [] \<Rightarrow> rep | c # cs \<Rightarrow> rep @ c # re_replace_all r rep (Some c) cs)
      | [] \<Rightarrow> (case s of [] \<Rightarrow> [] | c # cs \<Rightarrow> c # re_replace_all r rep (Some c) cs))"
  by pat_completeness auto
termination
  by (relation "measure (\<lambda>(r, rep, p, s). length s)") auto

text \<open>
  \<open>s.split(r)\<close> (here \<open>str_split\<close>) for an expression without capturing group.  In
  \<open>re_split\<close>, \<open>cur\<close> is the piece collected since the last separator; a match is a
  separator unless it is empty and the piece is empty too.
\<close>

function re_split :: "re \<Rightarrow> jschar option \<Rightarrow> jstring \<Rightarrow> jstring \<Rightarrow> jstring list" where
  "re_split r p cur s =
     (case s of
        [] \<Rightarrow> [cur]
      | c # cs \<Rightarrow>
          (case rmatch r \<lparr>m_prev = p, m_rest = s, m_cap = None\<rparr> of
             x # xs \<Rightarrow>
               if length (m_rest x) < length s \<or> (length (m_rest x) = length s \<and> cur \<noteq> [])
               then cur # re_split r (m_prev x) [] (m_rest x)
               else re_split r (Some c) (cur @ [c]) cs
           | [] \<Rightarrow> re_split r (Some c) (cur @ [c]) cs))"
  by pat_completeness auto
termination
  by (relation "measure (\<lambda>(r, p, cur, s). 2 * length s + (if cur = [] then 0 else 1))") auto

definition str_split :: "re \<Rightarrow> jstring \<Rightarrow> jstring list" where
  "str_split r s =
     (if s = [] then
        (if rmatch r \<lparr>m_prev = None, m_rest = [], m_cap = None\<rparr> = [] then [[]] else [])
      else re_split r None [] s)"

declare re_replace_all.simps [simp del] re_split.simps [simp del]

section \<open>Response normalization (ai.js)\<close>

subsection \<open>\<open>stripCodeFences\<close>\<close>

text \<open>\<open>/^```[a-zA-Z]*\n?/\<close> and \<open>/```$/\<close>.\<close>

definition re_fence_open :: re where
  "re_fence_open =
     seqs [Bol, lit CHR 0x60, lit CHR 0x60, lit CHR 0x60, Star (Chr is_alpha),
           Opt (Chr (\<lambda>c. c = 0x0A))]"

definition re_fence_close :: re where
  "re_fence_close = seqs [lit CHR 0x60, lit CHR 0x60, lit CHR 0x60, Eol]"

definition fence :: jstring where
  "fence = [0x60, 0x60, 0x60]"

text \<open>Every caller passes a string, so the guard \<open>typeof text !== "string"\<close> is left out.\<close>

definition stripCodeFences :: "jstring \<Rightarrow> jstring" where
  "stripCodeFences text =
     (let t = trim text
      in if startsWith t fence \<and> endsWith t fence
         then trim (re_replace re_fence_close [] (re_replace re_fence_open [] t))
         else t)"

subsection \<open>\<open>tryParseJsonFromContent\<close>\<close>

fun the_str :: "jv \<Rightarrow> jstring" where
  "the_str (Str s) = s"
| "the_str v = []"

text \<open>The text of one segment of an array-valued content.\<close>

definition segment_text :: "jv \<Rightarrow> jstring" where
  "segment_text seg =
     (if is_string seg then the_str seg
      else if truthy seg \<and> is_object seg then
        (if is_string (get_prop seg (js ''text'')) then the_str (get_prop seg (js ''text''))
         else if is_string (get_prop seg (js ''content'')) then the_str (get_prop seg (js ''content''))
         else [])
      else [])"

text \<open>The string case: strict parsing first, then the text from the first \<open>{\<close> to the
  last \<open>}\<close>.  \<open>null\<close> is the result when nothing parses.\<close>

definition parse_text :: "platform \<Rightarrow> jstring \<Rightarrow> jv" where
  "parse_text P content =
     (let text = stripCodeFences content
      in case JSON_parse P text of
           Some v \<Rightarrow> v
         | None \<Rightarrow>
             (case (indexOf text 0x7B, lastIndexOf text 0x7D) of
                (Some firstBrace, Some lastBrace) \<Rightarrow>
                  (if lastBrace > firstBrace then
                     (case JSON_parse P (slice text firstBrace (lastBrace + 1)) of
                        Some v \<Rightarrow> v
                      | None \<Rightarrow> Null)
                   else Null)
              | _ \<Rightarrow> Null))"

definition wrapped_inner :: "jv \<Rightarrow> jv" where
  "wrapped_inner content =
     (if is_string (get_prop content (js ''content'')) then get_prop content (js ''content'')
      else if is_string (get_prop content (js ''text'')) then get_prop content (js ''text'')
      else Null)"

function tryParseJsonFromContent :: "platform \<Rightarrow> jv \<Rightarrow> jv" where
  "tryParseJsonFromContent P content =
     (if isArray content then
        tryParseJsonFromContent P (Str (concat (map segment_text (case content of Arr segs \<Rightarrow> segs))))
      else if truthy content \<and> is_object content then
        (if truthy (wrapped_inner content)
         then tryParseJsonFromContent P (wrapped_inner content)
         else content)
      else if \<not> is_string content then Null
      else parse_text P (the_str content))"
  by pat_completeness auto
termination
proof (relation "measure (\<lambda>(P, v). if is_string v then 0 else 1)")
  show "wf (measure (\<lambda>(P, v). if is_string v then (0::nat) else 1))" by simp
next
  fix P :: platform and content :: jv
  assume "isArray content"
  then show "((P, Str (concat (map segment_text (case content of Arr segs \<Rightarrow> segs)))), (P, content))
       \<in> measure (\<lambda>(P, v). if is_string v then (0::nat) else 1)"
    by (cases content) simp_all
next
  fix P :: platform and content :: jv
  assume "\<not> isArray content" and "truthy content \<and> is_object content"
    and "truthy (wrapped_inner content)"
  then show "((P, wrapped_inner content), (P, content))
       \<in> measure (\<lambda>(P, v). if is_string v then (0::nat) else 1)"
    by (cases content) (auto simp: wrapped_inner_def split: if_splits)
qed

subsection \<open>\<open>clampScore\<close>\<close>

definition clampScore :: "num \<Rightarrow> num" where
  "clampScore score =
     (if isNaN score then Fin 5
      else math_max (Fin 0) (math_min (Fin 10) (math_round score)))"

subsection \<open>\<open>extractFromUnstructured\<close>\<close>

text \<open>
  \<open>text.split(/\r?\n/).map((l) => l.trim()).filter(Boolean)\<close>.  \<open>split_lines\<close> is
  the same splitting by recursion on the text, without the matcher.
\<close>

definition re_newline :: re where
  "re_newline = Seq (Opt (Chr (\<lambda>c. c = 0x0D))) (Chr (\<lambda>c. c = 0x0A))"

fun split_lines :: "jstring \<Rightarrow> jstring list" where
  "split_lines [] = [[]]"
| "split_lines (c # cs) =
     (if c = 0x0A then [] # split_lines cs
      else if c = 0x0D \<and> cs \<noteq> [] \<and> hd cs = 0x0A then [] # split_lines (tl cs)
      else (case split_lines cs of l # ls \<Rightarrow> (c # l) # ls | [] \<Rightarrow> [[c]]))"

definition text_lines :: "jstring \<Rightarrow> jstring list" where
  "text_lines text = filter (\<lambda>l. l \<noteq> []) (map trim (str_split re_newline text))"

text \<open>The pieces the score patterns share: \<open>\s*\<close>, \<open>[:\-]\<close>, \<open>\d{1,2}\<close>,
  \<open>(?:\s*\/\s*10)?\<close> and the class \<^verbatim>\<open>[o\u00F3]\<close> (o, and o with an acute accent) under the flag \<open>i\<close>.\<close>

definition ws_star :: re where
  "ws_star = Star (Chr is_space)"

definition colon_dash :: re where
  "colon_dash = Chr (\<lambda>c. c = 0x3A \<or> c = 0x2D)"

definition d12 :: re where
  "d12 = Seq (Chr is_digit) (at_most 1 (Chr is_digit))"

definition out_of_ten :: re where
  "out_of_ten = Opt (seqs [ws_star, lit CHR ''/'', ws_star, lit CHR ''1'', lit CHR ''0''])"

definition o_acute :: re where
  "o_acute = Chr (\<lambda>c. c = 0x6F \<or> c = 0x4F \<or> c = 0xF3 \<or> c = 0xD3)"

text \<open>
  \<^verbatim>\<open>/\bprivacy\s*(?:abuse\s*)?score\b\s*[:\-]?\s*(\d{1,2})(?:\s*\/\s*10)?/i\<close>,
  \<^verbatim>\<open>/\bscore\b\s*[:\-]?\s*(\d{1,2})(?:\s*\/\s*10)?/i\<close>,
  \<^verbatim>\<open>/\bpuntuaci[o\u00F3]n\s*(?:de\s*privacidad)?\b\s*[:\-]?\s*(\d{1,2})(?:\s*\/\s*10)?/i\<close>,
  \<^verbatim>\<open>/\bpuntaje\s*(?:de\s*privacidad)?\b\s*[:\-]?\s*(\d{1,2})(?:\s*\/\s*10)?/i\<close>,
  \<^verbatim>\<open>/\b(\d{1,2})\s*\/\s*10\b/\<close>.
\<close>

definition scorePatterns :: "re list" where
  "scorePatterns =
     [seqs [WordB, word_ci ''privacy'', ws_star, Opt (seqs [word_ci ''abuse'', ws_star]), word_ci ''score'',
            WordB, ws_star, Opt colon_dash, ws_star, Cap d12, out_of_ten],
      seqs [WordB, word_ci ''score'', WordB, ws_star, Opt colon_dash, ws_star, Cap d12, out_of_ten],
      seqs [WordB, word_ci ''puntuaci'', o_acute, ci CHR ''n'', ws_star,
            Opt (seqs [word_ci ''de'', ws_star, word_ci ''privacidad'']),
            WordB, ws_star, Opt colon_dash, ws_star, Cap d12, out_of_ten],
      seqs [WordB, word_ci ''puntaje'', ws_star,
            Opt (seqs [word_ci ''de'', ws_star, word_ci ''privacidad'']),
            WordB, ws_star, Opt colon_dash, ws_star, Cap d12, out_of_ten],
      seqs [WordB, Cap d12, ws_star, lit CHR ''/'', ws_star, lit CHR ''1'', lit CHR ''0'', WordB]]"

text \<open>One pattern on one line: \<open>line.match(re)\<close>, \<open>parseInt(m[1], 10)\<close> and, unless that
  is \<open>NaN\<close>, \<open>clampScore\<close>.\<close>

definition match_score :: "re \<Rightarrow> jstring \<Rightarrow> num option" where
  "match_score r line =
     (case re_exec r line of
        None \<Rightarrow> None
      | Some (pre, st) \<Rightarrow>
          (let n = (case m_cap st of None \<Rightarrow> NaN | Some g \<Rightarrow> parseInt10 g)
           in if isNaN n then None else Some (clampScore n)))"

text \<open>The inner loop over the patterns and the outer loop over the lines, from index \<open>i\<close>.\<close>

fun first_score :: "re list \<Rightarrow> jstring \<Rightarrow> num option" where
  "first_score [] line = None"
| "first_score (r # rs) line =
     (case match_score r line of Some d \<Rightarrow> Some d | None \<Rightarrow> first_score rs line)"

fun detect_score :: "jstring list \<Rightarrow> nat \<Rightarrow> (num \<times> nat) option" where
  "detect_score [] i = None"
| "detect_score (line # ls) i =
     (case first_score scorePatterns line of
        Some d \<Rightarrow> Some (d, i)
      | None \<Rightarrow> detect_score ls (Suc i))"

text \<open>
  \<^verbatim>\<open>/^[^:\-]+[:\-]?\s*/\<close>, \<^verbatim>\<open>/^(\d{1,2})(?:\s*\/\s*10)?\s*/\<close>,
  \<^verbatim>\<open>/[a-zA-Z\u00C0-\u017F]/\<close> and
  \<^verbatim>\<open>/(explana|explica|porque|motivo|reason|because|justif)/i\<close>.
\<close>

definition re_label :: re where
  "re_label = seqs [Bol, Plus (Chr (\<lambda>c. \<not> (c = 0x3A \<or> c = 0x2D))), Opt colon_dash, ws_star]"

definition re_number :: re where
  "re_number = seqs [Bol, Cap d12, out_of_ten, ws_star]"

definition re_letter :: re where
  "re_letter = Chr (\<lambda>c. is_alpha c \<or> (0xC0 \<le> c \<and> c \<le> 0x17F))"

definition re_reason :: re where
  "re_reason =
     Cap (alts [word_ci ''explana'', word_ci ''explica'', word_ci ''porque'', word_ci ''motivo'',
                word_ci ''reason'', word_ci ''because'', word_ci ''justif''])"

definition explanation_of :: "jstring list \<Rightarrow> nat option \<Rightarrow> jstring" where
  "explanation_of lines scoreLineIndex =
     (case scoreLineIndex of
        None \<Rightarrow> []
      | Some i \<Rightarrow>
          (let after = re_replace re_label [] (lines ! i);
               afterNumber = trim (re_replace re_number [] after)
           in if afterNumber \<noteq> [] \<and> re_test re_letter afterNumber then afterNumber
              else if Suc i < length lines \<and> lines ! Suc i \<noteq> [] then
                (let next = lines ! Suc i
                 in if re_test re_reason next then next else [])
              else []))"

text \<open>
  \<^verbatim>\<open>/^(summary|resumen)\b[:\-]?/i\<close>, \<^verbatim>\<open>/^#{1,6}\s+/\<close>,
  \<^verbatim>\<open>/^(score|puntuaci[o\u00F3]n|puntaje)\b/i\<close> and \<^verbatim>\<open>/^(rights|derechos)\b/i\<close>.
\<close>

definition re_heading :: re where
  "re_heading =
     seqs [Bol, Cap (Alt (word_ci ''summary'') (word_ci ''resumen'')), WordB, Opt colon_dash]"

definition re_md_heading :: re where
  "re_md_heading = seqs [Bol, lit CHR ''#'', at_most 5 (lit CHR ''#''), Plus (Chr is_space)]"

definition re_score_line :: re where
  "re_score_line =
     seqs [Bol,
           Cap (alts [word_ci ''score'', seqs [word_ci ''puntuaci'', o_acute, ci CHR ''n''],
                      word_ci ''puntaje'']),
           WordB]"

definition re_rights :: re where
  "re_rights = seqs [Bol, Cap (Alt (word_ci ''rights'') (word_ci ''derechos'')), WordB]"

text \<open>\<open>lines.findIndex(p)\<close>; \<open>None\<close> is \<open>-1\<close>.\<close>

fun findIndex :: "('a \<Rightarrow> bool) \<Rightarrow> 'a list \<Rightarrow> nat option" where
  "findIndex p [] = None"
| "findIndex p (x # xs) = (if p x then Some 0 else map_option Suc (findIndex p xs))"

definition section_end :: "jstring \<Rightarrow> bool" where
  "section_end l \<longleftrightarrow> re_test re_md_heading l \<or> re_test re_score_line l \<or> re_test re_rights l"

text \<open>\<open>lines.filter((_, idx) => idx !== scoreLineIndex)\<close>.\<close>

definition without_index :: "'a list \<Rightarrow> nat option \<Rightarrow> 'a list" where
  "without_index xs idx = (case idx of None \<Rightarrow> xs | Some i \<Rightarrow> take i xs @ drop (Suc i) xs)"

definition summary_of :: "jstring \<Rightarrow> jstring list \<Rightarrow> nat option \<Rightarrow> jstring" where
  "summary_of text lines scoreLineIndex =
     (let summaryText =
            (case findIndex (re_test re_heading) lines of
               None \<Rightarrow> []
             | Some headingIdx \<Rightarrow>
                 trim (join [0x0A] (takeWhile (\<lambda>l. \<not> section_end l) (drop (Suc headingIdx) lines))))
      in if summaryText = [] then
           (let body = trim (join [0x0A] (without_index lines scoreLineIndex))
            in if body \<noteq> [] then body else text)
         else summaryText)"

definition extractFromUnstructured :: "jv \<Rightarrow> jv" where
  "extractFromUnstructured content =
     (let text = stripCodeFences (if is_string content then the_str content else []);
          lines = text_lines text;
          detected = detect_score lines 0;
          detectedScore = map_option fst detected;
          scoreLineIndex = map_option snd detected;
          explanation = explanation_of lines scoreLineIndex;
          summaryText = summary_of text lines scoreLineIndex;
          finalScore = (case detectedScore of Some d \<Rightarrow> d | None \<Rightarrow> Fin 5);
          finalExplanation =
            (if explanation \<noteq> [] then explanation
             else if detectedScore \<noteq> None then js ''Detected score from response.''
             else js ''No explicit score provided; using neutral score.'')
      in Obj [(js ''privacy_score'', Num finalScore),
              (js ''score_explanation'', Str finalExplanation),
              (js ''summary'', Str summaryText)])"

subsection \<open>Normalization and validation in \<open>summarizePolicy\<close>\<close>

record summary_record =
  privacy_score :: num
  score_explanation :: jstring
  summary :: jstring

text \<open>
  The explanation: \<open>trim()\<close>, \<^verbatim>\<open>replace(/[\.\s]+$/g, "")\<close>,
  \<^verbatim>\<open>split(/\s+/).filter(Boolean)\<close>, the first eight words joined by a space when
  there are more than eight, and \<^verbatim>\<open>replace(/\.$/, "")\<close>.
\<close>

definition run_eol :: "(jschar \<Rightarrow> bool) \<Rightarrow> re" where
  "run_eol P = Seq (Plus (Chr P)) Eol"

definition re_trailing :: re where
  "re_trailing = run_eol (\<lambda>c. c = 0x2E \<or> is_space c)"

definition re_spaces :: re where
  "re_spaces = Plus (Chr is_space)"

definition re_final_period :: re where
  "re_final_period = Seq (Chr (\<lambda>c. c = 0x2E)) Eol"

definition normalize_explanation :: "jstring \<Rightarrow> jstring" where
  "normalize_explanation e =
     (let explanation = re_replace_all re_trailing [] None (trim e);
          words = filter (\<lambda>w. w \<noteq> []) (str_split re_spaces explanation);
          explanation = (if length words > 8 then join [0x20] (take 8 words) else explanation)
      in re_replace re_final_period [] explanation)"

text \<open>
  The three steps by recursion on the text, without the matcher: \<open>strip_trailing\<close> removes
  the trailing run of periods and white space, \<open>words_of\<close> lists the maximal runs free of
  white space, \<open>drop_final_period\<close> removes one period at the end.
\<close>

definition strip_trailing :: "jstring \<Rightarrow> jstring" where
  "strip_trailing s = rev (dropWhile (\<lambda>c. c = 0x2E \<or> is_space c) (rev s))"

function words_of :: "jstring \<Rightarrow> jstring list" where
  "words_of s =
     (let t = dropWhile is_space s
      in if t = [] then []
         else takeWhile (\<lambda>c. \<not> is_space c) t # words_of (dropWhile (\<lambda>c. \<not> is_space c) t))"
  by pat_completeness auto
termination
proof (relation "measure length")
  show "wf (measure (length :: jstring \<Rightarrow> nat))" by simp
next
  fix s t :: jstring
  assume t: "t = dropWhile is_space s" and ne: "t \<noteq> []"
  from ne obtain x xs where txs: "t = x # xs" by (cases t) auto
  have "\<not> is_space x"
    using t txs dropWhile_eq_Cons_conv [of is_space s x xs] by simp
  then have "length (dropWhile (\<lambda>c. \<not> is_space c) t) \<le> length xs"
    using txs by (simp add: length_dropWhile_le)
  also have "length xs < length t" using txs by simp
  also have "length t \<le> length s" using t by (simp add: length_dropWhile_le)
  finally show "(dropWhile (\<lambda>c. \<not> is_space c) t, s) \<in> measure length" by simp
qed

definition drop_final_period :: "jstring \<Rightarrow> jstring" where
  "drop_final_period s = (if s \<noteq> [] \<and> last s = 0x2E then butlast s else s)"


text \<open>\<open>if (parsed && typeof parsed === "object" && parsed.content && typeof parsed.content
  === "string")\<close>: one more layer of wrapping is removed when its content parses.\<close>

definition unwrap_content :: "platform \<Rightarrow> jv \<Rightarrow> jv" where
  "unwrap_content P parsed =
     (if truthy parsed \<and> is_object parsed \<and> truthy (get_prop parsed (js ''content''))
         \<and> is_string (get_prop parsed (js ''content''))
      then (let inner = tryParseJsonFromContent P (get_prop parsed (js ''content''))
            in if truthy inner then inner else parsed)
      else parsed)"

text \<open>\<open>if (Array.isArray(parsed)) parsed = tryParseJsonFromContent(parsed) ||
  extractFromUnstructured(String(parsed))\<close>.\<close>

definition unwrap_array :: "platform \<Rightarrow> jv \<Rightarrow> error + jv" where
  "unwrap_array P parsed =
     (if isArray parsed then
        (let t = tryParseJsonFromContent P parsed
         in if truthy t then Inr t
            else bind (to_string P parsed) (\<lambda>s. Inr (extractFromUnstructured (Str s))))
      else Inr parsed)"

text \<open>The score: \<open>parsed?.privacy_score\<close>, a numeric string accepted, a score nested in
  \<open>summary\<close> or \<open>text\<close> as the last resort, and \<open>clampScore(Number(score))\<close>.\<close>

definition score_of :: "platform \<Rightarrow> jv \<Rightarrow> error + num" where
  "score_of P parsed =
     (let score = opt_get parsed (js ''privacy_score'');
          score = (if is_string score then
                     (let n = StringToNumber P (the_str score)
                      in if \<not> isNaN n then Num n else score)
                   else score);
          score = (if \<not> is_number score then
                     (let maybe = tryParseJsonFromContent P
                            (or_else (opt_get parsed (js ''summary''))
                               (or_else (opt_get parsed (js ''text'')) (Str [])))
                      in if truthy maybe \<and> is_number (get_prop maybe (js ''privacy_score''))
                         then get_prop maybe (js ''privacy_score'') else score)
                   else score)
      in bind (to_number P score) (\<lambda>n. Inr (clampScore n)))"

definition norm :: "platform \<Rightarrow> jv \<Rightarrow> error + summary_record" where
  "norm P parsed0 =
     bind (unwrap_array P (unwrap_content P parsed0)) (\<lambda>parsed.
     bind (score_of P parsed) (\<lambda>score.
     bind (to_string P (nullish_else (opt_get parsed (js ''score_explanation'')) (Str []))) (\<lambda>e.
     bind (to_string P (nullish_else (opt_get parsed (js ''summary'')) (Str []))) (\<lambda>s.
     Inr \<lparr>privacy_score = score, score_explanation = normalize_explanation e, summary = s\<rparr>))))"

text \<open>The two final checks; the fields of a record are strings by their type, which is
  what \<open>String(...)\<close> guarantees in the source.\<close>

definition validate :: "summary_record \<Rightarrow> error + summary_record" where
  "validate n =
     (if \<not> is_string (Str (score_explanation n)) \<or> \<not> is_string (Str (summary n))
      then Inl MissingFields
      else if num_less (privacy_score n) (Fin 0) \<or> num_less (Fin 10) (privacy_score n)
      then Inl OutOfRange
      else Inr n)"

text \<open>\<open>data.choices?.[0]?.message\<close>, and the alternative places of the content.\<close>

definition reply_message :: "jv \<Rightarrow> jv" where
  "reply_message data = opt_get (opt_index0 (get_prop data (js ''choices''))) (js ''message'')"

definition alt_content :: "jv \<Rightarrow> jv" where
  "alt_content data =
     or_else (opt_get (reply_message data) (js ''reasoning_content''))
       (or_else (opt_get (reply_message data) (js ''tool_content''))
          (or_else (opt_get (reply_message data) (js ''content_text'')) Null))"

text \<open>
  \<open>summarizePolicy\<close> from the parsed response body \<open>data\<close> on.  Reading \<open>data.choices\<close>
  throws a \<open>TypeError\<close> when \<open>data\<close> is \<open>null\<close>.
\<close>

definition summarizePolicy_reply :: "platform \<Rightarrow> jv \<Rightarrow> error + summary_record" where
  "summarizePolicy_reply P data =
     (if nullish data then Inl TypeError
      else
        (let rawContent = opt_get (reply_message data) (js ''content'');
             parsed = tryParseJsonFromContent P rawContent;
             parsed = (if \<not> truthy parsed then
                         (let altContent = alt_content data
                          in if truthy altContent then tryParseJsonFromContent P altContent
                             else parsed)
                       else parsed);
             parsed = (if \<not> truthy parsed then extractFromUnstructured rawContent else parsed)
         in bind (norm P parsed) validate))"

text \<open>A reply that carries \<open>content\<close> as the content of its first choice and nothing else.\<close>

definition reply_with :: "jv \<Rightarrow> jv" where
  "reply_with content =
     Obj [(js ''choices'', Arr [Obj [(js ''message'', Obj [(js ''content'', content)])]])]"

section \<open>A model of \<open>JSON.parse\<close>\<close>

text \<open>
  The JSON grammar of ECMA-404, for the results about concrete replies.  A number is
  kept as the exact value of its literal.  A repeated key keeps its first position and
  its last value.
\<close>

definition json_ws :: "jschar \<Rightarrow> bool" where
  "json_ws c \<longleftrightarrow> c = 0x20 \<or> c = 0x09 \<or> c = 0x0A \<or> c = 0x0D"

definition skip_ws :: "jstring \<Rightarrow> jstring" where
  "skip_ws s = dropWhile json_ws s"

definition hex_value :: "jschar \<Rightarrow> nat option" where
  "hex_value c =
     (if 0x30 \<le> c \<and> c \<le> 0x39 then Some (c - 0x30)
      else if 0x41 \<le> c \<and> c \<le> 0x46 then Some (c - 0x41 + 10)
      else if 0x61 \<le> c \<and> c \<le> 0x66 then Some (c - 0x61 + 10)
      else None)"

definition hex4 :: "jschar \<Rightarrow> jschar \<Rightarrow> jschar \<Rightarrow> jschar \<Rightarrow> jschar option" where
  "hex4 a b c d =
     (case (hex_value a, hex_value b, hex_value c, hex_value d) of
        (Some w, Some x, Some y, Some z) \<Rightarrow> Some (((w * 16 + x) * 16 + y) * 16 + z)
      | _ \<Rightarrow> None)"

text \<open>The character an escape \<open>\e\<close> stands for, \<open>\u\<close> apart.\<close>

definition escape_char :: "jschar \<Rightarrow> jschar option" where
  "escape_char e =
     (if e = 0x22 \<or> e = 0x5C \<or> e = 0x2F then Some e
      else if e = 0x62 then Some 0x08
      else if e = 0x66 then Some 0x0C
      else if e = 0x6E then Some 0x0A
      else if e = 0x72 then Some 0x0D
      else if e = 0x74 then Some 0x09
      else None)"

text \<open>A string from behind its opening quote: its code units and the input behind the
  closing quote.\<close>

fun parse_string_body :: "jstring \<Rightarrow> (jstring \<times> jstring) option" where
  "parse_string_body [] = None"
| "parse_string_body (c # cs) =
     (if c = 0x22 then Some ([], cs)
      else if c = 0x5C then
        (case cs of
           [] \<Rightarrow> None
         | e # es \<Rightarrow>
             if e = 0x75 then
               (case es of
                  h1 # h2 # h3 # h4 # r \<Rightarrow>
                    (case hex4 h1 h2 h3 h4 of
                       None \<Rightarrow> None
                     | Some u \<Rightarrow> map_option (\<lambda>(a, b). (u # a, b)) (parse_string_body r))
                | _ \<Rightarrow> None)
             else
               (case escape_char e of
                  None \<Rightarrow> None
                | Some x \<Rightarrow> map_option (\<lambda>(a, b). (x # a, b)) (parse_string_body es)))
      else if c < 0x20 then None
      else map_option (\<lambda>(a, b). (c # a, b)) (parse_string_body cs))"

text \<open>A number literal \<open>-?(0|[1-9][0-9]*)(\.[0-9]+)?([eE][+-]?[0-9]+)?\<close>.\<close>

definition parse_fraction :: "jstring \<Rightarrow> (rat \<times> jstring) option" where
  "parse_fraction s =
     (if s \<noteq> [] \<and> hd s = 0x2E then
        (let ds = takeWhile is_digit (tl s)
         in if ds = [] then None
            else Some (of_nat (digits_value ds) / 10 ^ length ds, dropWhile is_digit (tl s)))
      else Some (0, s))"

definition parse_exponent :: "jstring \<Rightarrow> (rat \<times> jstring) option" where
  "parse_exponent s =
     (if s \<noteq> [] \<and> (hd s = 0x65 \<or> hd s = 0x45) then
        (let neg = (tl s \<noteq> [] \<and> hd (tl s) = 0x2D);
             t = (if tl s \<noteq> [] \<and> (hd (tl s) = 0x2D \<or> hd (tl s) = 0x2B) then tl (tl s) else tl s);
             ds = takeWhile is_digit t
         in if ds = [] then None
            else Some (if neg then 1 / 10 ^ digits_value ds else 10 ^ digits_value ds,
                       dropWhile is_digit t))
      else Some (1, s))"

definition parse_number :: "jstring \<Rightarrow> (jv \<times> jstring) option" where
  "parse_number s =
     (let neg = (s \<noteq> [] \<and> hd s = 0x2D);
          s1 = (if neg then tl s else s);
          ds = takeWhile is_digit s1
      in if ds = [] \<or> (length ds > 1 \<and> hd ds = 0x30) then None
         else
           (case parse_fraction (dropWhile is_digit s1) of
              None \<Rightarrow> None
            | Some (f, s2) \<Rightarrow>
                (case parse_exponent s2 of
                   None \<Rightarrow> None
                 | Some (e, s3) \<Rightarrow>
                     Some (Num (Fin ((if neg then - 1 else 1) * (of_nat (digits_value ds) + f) * e)),
                           s3))))"

fun obj_put :: "(jstring \<times> jv) list \<Rightarrow> jstring \<Rightarrow> jv \<Rightarrow> (jstring \<times> jv) list" where
  "obj_put [] k v = [(k, v)]"
| "obj_put (p # ps) k v = (if fst p = k then (k, v) # ps else p # obj_put ps k v)"

text \<open>
  Values, the elements of an array behind \<open>[\<close> or a comma, and the members of an object
  behind \<open>{\<close> or a comma.  The first argument bounds the depth of the recursion.
\<close>

fun parse_value :: "'f list \<Rightarrow> jstring \<Rightarrow> (jv \<times> jstring) option"
  and parse_elems :: "'f list \<Rightarrow> jstring \<Rightarrow> jv list \<Rightarrow> (jv \<times> jstring) option"
  and parse_members :: "'f list \<Rightarrow> jstring \<Rightarrow> (jstring \<times> jv) list \<Rightarrow> (jv \<times> jstring) option"
  where
  "parse_value [] s = None"
| "parse_value (_ # fuel) s =
     (case skip_ws s of
        [] \<Rightarrow> None
      | c # cs \<Rightarrow>
          if c = 0x7B then
            (if skip_ws cs \<noteq> [] \<and> hd (skip_ws cs) = 0x7D then Some (Obj [], tl (skip_ws cs))
             else parse_members fuel cs [])
          else if c = 0x5B then
            (if skip_ws cs \<noteq> [] \<and> hd (skip_ws cs) = 0x5D then Some (Arr [], tl (skip_ws cs))
             else parse_elems fuel cs [])
          else if c = 0x22 then map_option (\<lambda>(a, b). (Str a, b)) (parse_string_body cs)
          else if startsWith (c # cs) (js ''true'') then Some (Bool True, drop 4 (c # cs))
          else if startsWith (c # cs) (js ''false'') then Some (Bool False, drop 5 (c # cs))
          else if startsWith (c # cs) (js ''null'') then Some (Null, drop 4 (c # cs))
          else parse_number (c # cs))"
| "parse_elems [] s acc = None"
| "parse_elems (_ # fuel) s acc =
     (case parse_value fuel s of
        None \<Rightarrow> None
      | Some (v, r) \<Rightarrow>
          (case skip_ws r of
             [] \<Rightarrow> None
           | c # cs \<Rightarrow>
               if c = 0x2C then parse_elems fuel cs (acc @ [v])
               else if c = 0x5D then Some (Arr (acc @ [v]), cs)
               else None))"
| "parse_members [] s acc = None"
| "parse_members (_ # fuel) s acc =
     (case skip_ws s of
        [] \<Rightarrow> None
      | c # cs \<Rightarrow>
          if c \<noteq> 0x22 then None
          else
            (case parse_string_body cs of
               None \<Rightarrow> None
             | Some (k, r) \<Rightarrow>
                 (case skip_ws r of
                    [] \<Rightarrow> None
                  | d # ds \<Rightarrow>
                      if d \<noteq> 0x3A then None
                      else
                        (case parse_value fuel ds of
                           None \<Rightarrow> None
                         | Some (v, r2) \<Rightarrow>
                             (case skip_ws r2 of
                                [] \<Rightarrow> None
                              | e # es \<Rightarrow>
                                  if e = 0x2C then parse_members fuel es (obj_put acc k v)
                                  else if e = 0x7D then Some (Obj (obj_put acc k v), es)
                                  else None)))))"

definition json_parse :: "jstring \<Rightarrow> jv option" where
  "json_parse s =
     (case parse_value (s @ s) s of
        None \<Rightarrow> None
      | Some (v, r) \<Rightarrow> if skip_ws r = [] then Some v else None)"

section \<open>Distillation (background script)\<close>

text \<open>
  \<open>normalizeWhitespace\<close> is
  \<^verbatim>\<open>String(text).replace(/[\t\f\r ]+/g, " ").replace(/\s*\n\s*/g, "\n").trim()\<close>.
\<close>

definition hspace :: "jschar \<Rightarrow> bool" where
  "hspace c \<longleftrightarrow> c = 0x09 \<or> c = 0x0C \<or> c = 0x0D \<or> c = 0x20"




text \<open>
  The two replacements by recursion on the text, without the matcher.  \<open>collapse_hspace\<close>
  turns every maximal run of tab, form feed, carriage return and space into one space.
  For \<open>squeeze_newlines\<close>, a match of \<^verbatim>\<open>\s*\n\s*\<close> can start at a position exactly
  when the maximal run of white space from there on holds a line feed, and it then covers
  that whole run: the first \<^verbatim>\<open>\s*\<close> backtracks to the last line feed of the run and
  the second takes what is left.
\<close>

function collapse_hspace :: "jstring \<Rightarrow> jstring" where
  "collapse_hspace [] = []"
| "collapse_hspace (c # cs) =
     (if hspace c then 0x20 # collapse_hspace (dropWhile hspace cs)
      else c # collapse_hspace cs)"
  by pat_completeness auto
termination
  by (relation "measure length") (auto simp: length_dropWhile_le less_Suc_eq_le)

function squeeze_newlines :: "jstring \<Rightarrow> jstring" where
  "squeeze_newlines [] = []"
| "squeeze_newlines (c # cs) =
     (if 0x0A \<in> set (takeWhile is_space (c # cs))
      then 0x0A # squeeze_newlines (dropWhile is_space (c # cs))
      else c # squeeze_newlines cs)"
  by pat_completeness auto
termination
proof (relation "measure length")
  show "wf (measure (length :: jstring \<Rightarrow> nat))" by simp
next
  fix c :: jschar and cs :: jstring
  assume "0x0A \<in> set (takeWhile is_space (c # cs))"
  then have "is_space c" by (cases "is_space c") auto
  then have "length (dropWhile is_space (c # cs)) \<le> length cs"
    by (simp add: length_dropWhile_le)
  then show "(dropWhile is_space (c # cs), c # cs) \<in> measure length" by simp
next
  fix c :: jschar and cs :: jstring
  show "(cs, c # cs) \<in> measure length" by simp
qed



section \<open>A reference platform\<close>

text \<open>
  A platform for the results about concrete replies.  \<open>string_to_number\<close> follows the
  grammar \<open>StringNumericLiteral\<close> of ECMAScript and keeps the exact value of the literal.
  \<open>number_to_string\<close> prints an integer in decimal digits and any other finite value with
  at most twenty digits behind the point; the exponent notation of very large and very
  small numbers is not modelled.  No result below depends on either conversion: they
  hold for every platform whose \<open>JSON.parse\<close> is \<open>json_parse\<close>.
\<close>

definition digit_in_base :: "nat \<Rightarrow> jschar \<Rightarrow> nat option" where
  "digit_in_base b c =
     (case hex_value c of None \<Rightarrow> None | Some v \<Rightarrow> if v < b then Some v else None)"

fun radix_digits :: "nat \<Rightarrow> nat \<Rightarrow> jstring \<Rightarrow> nat option" where
  "radix_digits b acc [] = Some acc"
| "radix_digits b acc (c # cs) =
     (case digit_in_base b c of
        None \<Rightarrow> None
      | Some v \<Rightarrow> radix_digits b (b * acc + v) cs)"

definition radix_value :: "nat \<Rightarrow> jstring \<Rightarrow> num" where
  "radix_value b ds =
     (if ds = [] then NaN
      else case radix_digits b 0 ds of None \<Rightarrow> NaN | Some n \<Rightarrow> Fin (of_nat n))"

definition unsigned_decimal :: "jstring \<Rightarrow> num" where
  "unsigned_decimal s =
     (if s = js ''Infinity'' then PosInf
      else
        (let ip = takeWhile is_digit s;
             r1 = dropWhile is_digit s;
             dot = (r1 \<noteq> [] \<and> hd r1 = 0x2E);
             fp = (if dot then takeWhile is_digit (tl r1) else []);
             r2 = (if dot then dropWhile is_digit (tl r1) else r1)
         in if ip = [] \<and> fp = [] then NaN
            else
              (case parse_exponent r2 of
                 Some (e, []) \<Rightarrow>
                   Fin ((of_nat (digits_value ip) + of_nat (digits_value fp) / 10 ^ length fp) * e)
               | _ \<Rightarrow> NaN)))"

fun negate :: "num \<Rightarrow> num" where
  "negate NaN = NaN"
| "negate NegInf = PosInf"
| "negate PosInf = NegInf"
| "negate (Fin r) = Fin (- r)"

definition string_to_number :: "jstring \<Rightarrow> num" where
  "string_to_number s =
     (let t = trim s
      in if t = [] then Fin 0
         else if length t \<ge> 2 \<and> hd t = 0x30 \<and> (t ! 1 = 0x78 \<or> t ! 1 = 0x58)
           then radix_value 16 (drop 2 t)
         else if length t \<ge> 2 \<and> hd t = 0x30 \<and> (t ! 1 = 0x6F \<or> t ! 1 = 0x4F)
           then radix_value 8 (drop 2 t)
         else if length t \<ge> 2 \<and> hd t = 0x30 \<and> (t ! 1 = 0x62 \<or> t ! 1 = 0x42)
           then radix_value 2 (drop 2 t)
         else if hd t = 0x2D then negate (unsigned_decimal (tl t))
         else if hd t = 0x2B then unsigned_decimal (tl t)
         else unsigned_decimal t)"

function digits_of :: "nat \<Rightarrow> jstring" where
  "digits_of n = (if n < 10 then [0x30 + n] else digits_of (n div 10) @ [0x30 + n mod 10])"
  by pat_completeness auto
termination
  by (relation "measure id") auto

primrec fraction_digits :: "nat \<Rightarrow> rat \<Rightarrow> jstring" where
  "fraction_digits 0 f = []"
| "fraction_digits (Suc k) f =
     (if f = 0 then []
      else (0x30 + nat \<lfloor>10 * f\<rfloor>) # fraction_digits k (10 * f - of_int \<lfloor>10 * f\<rfloor>))"

definition unsigned_to_string :: "rat \<Rightarrow> jstring" where
  "unsigned_to_string r =
     digits_of (nat \<lfloor>r\<rfloor>) @
     (if r = of_int \<lfloor>r\<rfloor> then [] else 0x2E # fraction_digits 20 (r - of_int \<lfloor>r\<rfloor>))"

fun number_to_string :: "num \<Rightarrow> jstring" where
  "number_to_string NaN = js ''NaN''"
| "number_to_string PosInf = js ''Infinity''"
| "number_to_string NegInf = js ''-Infinity''"
| "number_to_string (Fin r) =
     (if r < 0 then 0x2D # unsigned_to_string (- r) else unsigned_to_string r)"

definition reference_platform :: platform where
  "reference_platform =
     \<lparr>JSON_parse = json_parse, StringToNumber = string_to_number,
      NumberToString = number_to_string\<rparr>"

unbundle bit_operations_syntax

section \<open>Fingerprint (background script)\<close>

type_synonym byte = "8 word"
type_synonym w32 = "32 word"

subsection \<open>\<open>TextEncoder.encode\<close>: UTF-8\<close>

text \<open>
  The code points of a string: a surrogate pair is one code point, and a surrogate
  without its partner is replaced by U+FFFD, as \<open>TextEncoder\<close> does.
\<close>

definition high_surrogate :: "jschar \<Rightarrow> bool" where
  "high_surrogate c \<longleftrightarrow> 0xD800 \<le> c \<and> c \<le> 0xDBFF"

definition low_surrogate :: "jschar \<Rightarrow> bool" where
  "low_surrogate c \<longleftrightarrow> 0xDC00 \<le> c \<and> c \<le> 0xDFFF"

fun code_points :: "jstring \<Rightarrow> nat list" where
  "code_points [] = []"
| "code_points [c] = (if high_surrogate c \<or> low_surrogate c then [0xFFFD] else [c])"
| "code_points (c # d # cs) =
     (if high_surrogate c \<and> low_surrogate d
      then (0x10000 + (c - 0xD800) * 0x400 + (d - 0xDC00)) # code_points cs
      else if high_surrogate c \<or> low_surrogate c then 0xFFFD # code_points (d # cs)
      else c # code_points (d # cs))"

definition utf8_bytes :: "nat \<Rightarrow> byte list" where
  "utf8_bytes cp =
     (if cp < 0x80 then [of_nat cp]
      else if cp < 0x800 then [of_nat (0xC0 + cp div 0x40), of_nat (0x80 + cp mod 0x40)]
      else if cp < 0x10000 then
        [of_nat (0xE0 + cp div 0x1000), of_nat (0x80 + cp div 0x40 mod 0x40),
         of_nat (0x80 + cp mod 0x40)]
      else
        [of_nat (0xF0 + cp div 0x40000), of_nat (0x80 + cp div 0x1000 mod 0x40),
         of_nat (0x80 + cp div 0x40 mod 0x40), of_nat (0x80 + cp mod 0x40)])"

definition utf8_encode :: "jstring \<Rightarrow> byte list" where
  "utf8_encode s = concat (map utf8_bytes (code_points s))"

subsection \<open>\<open>crypto.subtle.digest("SHA-256", ...)\<close>\<close>

text \<open>SHA-256 as FIPS 180-4 defines it.\<close>

definition rotr :: "nat \<Rightarrow> w32 \<Rightarrow> w32" where
  "rotr n x = drop_bit n x OR push_bit (32 - n) x"

definition ch :: "w32 \<Rightarrow> w32 \<Rightarrow> w32 \<Rightarrow> w32" where
  "ch x y z = (x AND y) XOR (NOT x AND z)"

definition maj :: "w32 \<Rightarrow> w32 \<Rightarrow> w32 \<Rightarrow> w32" where
  "maj x y z = (x AND y) XOR (x AND z) XOR (y AND z)"

definition big_sigma0 :: "w32 \<Rightarrow> w32" where
  "big_sigma0 x = rotr 2 x XOR rotr 13 x XOR rotr 22 x"

definition big_sigma1 :: "w32 \<Rightarrow> w32" where
  "big_sigma1 x = rotr 6 x XOR rotr 11 x XOR rotr 25 x"

definition small_sigma0 :: "w32 \<Rightarrow> w32" where
  "small_sigma0 x = rotr 7 x XOR rotr 18 x XOR drop_bit 3 x"

definition small_sigma1 :: "w32 \<Rightarrow> w32" where
  "small_sigma1 x = rotr 17 x XOR rotr 19 x XOR drop_bit 10 x"

definition sha_K :: "w32 list" where
  "sha_K =
     [0x428A2F98, 0x71374491, 0xB5C0FBCF, 0xE9B5DBA5,
      0x3956C25B, 0x59F111F1, 0x923F82A4, 0xAB1C5ED5,
      0xD807AA98, 0x12835B01, 0x243185BE, 0x550C7DC3,
      0x72BE5D74, 0x80DEB1FE, 0x9BDC06A7, 0xC19BF174,
      0xE49B69C1, 0xEFBE4786, 0x0FC19DC6, 0x240CA1CC,
      0x2DE92C6F, 0x4A7484AA, 0x5CB0A9DC, 0x76F988DA,
      0x983E5152, 0xA831C66D, 0xB00327C8, 0xBF597FC7,
      0xC6E00BF3, 0xD5A79147, 0x06CA6351, 0x14292967,
      0x27B70A85, 0x2E1B2138, 0x4D2C6DFC, 0x53380D13,
      0x650A7354, 0x766A0ABB, 0x81C2C92E, 0x92722C85,
      0xA2BFE8A1, 0xA81A664B, 0xC24B8B70, 0xC76C51A3,
      0xD192E819, 0xD6990624, 0xF40E3585, 0x106AA070,
      0x19A4C116, 0x1E376C08, 0x2748774C, 0x34B0BCB5,
      0x391C0CB3, 0x4ED8AA4A, 0x5B9CCA4F, 0x682E6FF3,
      0x748F82EE, 0x78A5636F, 0x84C87814, 0x8CC70208,
      0x90BEFFFA, 0xA4506CEB, 0xBEF9A3F7, 0xC67178F2]"

type_synonym hstate = "w32 \<times> w32 \<times> w32 \<times> w32 \<times> w32 \<times> w32 \<times> w32 \<times> w32"

definition sha_H0 :: hstate where
  "sha_H0 = (0x6A09E667, 0xBB67AE85, 0x3C6EF372, 0xA54FF53A, 0x510E527F, 0x9B05688C, 0x1F83D9AB, 0x5BE0CD19)"

text \<open>Padding: a one bit, zeros up to 56 modulo 64 bytes, and the length in bits as a
  big-endian 64-bit number.\<close>

definition be64 :: "nat \<Rightarrow> byte list" where
  "be64 n = map (\<lambda>i. ucast (drop_bit (8 * (7 - i)) (of_nat n :: 64 word))) [0..<8]"

definition sha_pad :: "byte list \<Rightarrow> byte list" where
  "sha_pad msg =
     msg @ [0x80] @ replicate ((119 - length msg mod 64) mod 64) 0 @ be64 (8 * length msg)"

text \<open>The sixteen big-endian words of a block of 64 bytes.\<close>

fun be_words :: "byte list \<Rightarrow> w32 list" where
  "be_words (a # b # c # d # bs) =
     (push_bit 24 (ucast a) OR push_bit 16 (ucast b) OR push_bit 8 (ucast c) OR ucast d)
       # be_words bs"
| "be_words bs = []"

text \<open>
  The message schedule, from a window of the last sixteen words: the head of the window
  is the word of the current round, and the window moves on by
  \<open>W\<^sub>t = \<sigma>\<^sub>1(W\<^sub>t\<^sub>-\<^sub>2) + W\<^sub>t\<^sub>-\<^sub>7 + \<sigma>\<^sub>0(W\<^sub>t\<^sub>-\<^sub>1\<^sub>5) + W\<^sub>t\<^sub>-\<^sub>1\<^sub>6\<close>.
\<close>

definition next_window :: "w32 list \<Rightarrow> w32 list" where
  "next_window w =
     tl w @ [small_sigma1 (w ! 14) + w ! 9 + small_sigma0 (w ! 1) + w ! 0]"

definition sha_round :: "hstate \<Rightarrow> w32 \<Rightarrow> w32 \<Rightarrow> hstate" where
  "sha_round s k w =
     (case s of (a, b, c, d, e, f, g, h) \<Rightarrow>
        (let t1 = h + big_sigma1 e + ch e f g + k + w;
             t2 = big_sigma0 a + maj a b c
         in (t1 + t2, a, b, c, d + t1, e, f, g)))"

fun sha_rounds :: "w32 list \<Rightarrow> w32 list \<Rightarrow> hstate \<Rightarrow> hstate" where
  "sha_rounds [] w s = s"
| "sha_rounds (k # ks) w s = sha_rounds ks (next_window w) (sha_round s k (hd w))"

definition add_state :: "hstate \<Rightarrow> hstate \<Rightarrow> hstate" where
  "add_state s t =
     (case s of (a, b, c, d, e, f, g, h) \<Rightarrow>
      case t of (a', b', c', d', e', f', g', h') \<Rightarrow>
        (a + a', b + b', c + c', d + d', e + e', f + f', g + g', h + h'))"

definition sha_block :: "hstate \<Rightarrow> byte list \<Rightarrow> hstate" where
  "sha_block s block = add_state s (sha_rounds sha_K (be_words block) s)"

function sha_blocks :: "hstate \<Rightarrow> byte list \<Rightarrow> hstate" where
  "sha_blocks s bs = (if length bs < 64 then s else sha_blocks (sha_block s (take 64 bs)) (drop 64 bs))"
  by pat_completeness auto
termination
  by (relation "measure (\<lambda>(s, bs). length bs)") auto

definition be_bytes :: "w32 \<Rightarrow> byte list" where
  "be_bytes x = [ucast (drop_bit 24 x), ucast (drop_bit 16 x), ucast (drop_bit 8 x), ucast x]"

definition sha256 :: "byte list \<Rightarrow> byte list" where
  "sha256 msg =
     (case sha_blocks sha_H0 (sha_pad msg) of (a, b, c, d, e, f, g, h) \<Rightarrow>
        be_bytes a @ be_bytes b @ be_bytes c @ be_bytes d @
        be_bytes e @ be_bytes f @ be_bytes g @ be_bytes h)"

subsection \<open>\<open>hashText\<close>\<close>

text \<open>\<open>b.toString(16).padStart(2, "0")\<close> on a byte.\<close>

definition hex_digit :: "nat \<Rightarrow> jschar" where
  "hex_digit d = (if d < 10 then 0x30 + d else 0x61 + (d - 10))"

definition hex_byte :: "byte \<Rightarrow> jstring" where
  "hex_byte b = [hex_digit (unat b div 16), hex_digit (unat b mod 16)]"

definition hashText :: "jstring \<Rightarrow> jstring" where
  "hashText text = concat (map hex_byte (sha256 (utf8_encode text)))"

section \<open>The cache decision of the \<open>SUMMARIZE_POLICY\<close> handler (background script)\<close>

text \<open>
  The handler from the hash of the distilled text to the response.  The provider call
  \<open>summarizePolicy(bodyText, lang, { sourceDomain })\<close> is a parameter that either throws
  (\<open>Inl\<close>) or returns a summary.  Besides the response and the storage afterwards, the
  model returns the storage and provider operations the handler performed, in order.
\<close>

datatype event = StorageRemove jstring | ProviderCall jstring | StorageSave jstring

text \<open>The body of \<open>if (!existing || existing.hash !== hash)\<close> behind the removal of the
  stale entry: the provider call and \<open>saveSummary\<close>.\<close>

definition regenerate ::
  "(jstring \<Rightarrow> 'e + 'r) \<Rightarrow> int \<Rightarrow> jstring \<Rightarrow> jstring \<Rightarrow> jstring \<Rightarrow> 'r storage \<Rightarrow> event list
     \<Rightarrow> ('e + 'r) \<times> 'r storage \<times> event list" where
  "regenerate summarizePolicy now url bodyText hash st evs =
     (case summarizePolicy bodyText of
        Inl err \<Rightarrow> (Inl err, st, evs @ [ProviderCall bodyText])
      | Inr result \<Rightarrow>
          (Inr result, saveSummary now url result hash st,
           evs @ [ProviderCall bodyText, StorageSave url]))"

definition handle_summarize ::
  "(jstring \<Rightarrow> 'e + 'r) \<Rightarrow> int \<Rightarrow> jstring \<Rightarrow> jstring \<Rightarrow> 'r storage
     \<Rightarrow> ('e + 'r) \<times> 'r storage \<times> event list" where
  "handle_summarize summarizePolicy now url bodyText st =
     (let hash = hashText bodyText;
          existing = getSummary url st
      in case existing of
           None \<Rightarrow> regenerate summarizePolicy now url bodyText hash st []
         | Some e \<Rightarrow>
             if entry_hash e \<noteq> hash then
               regenerate summarizePolicy now url bodyText hash (snd (removeSummary url st))
                 [StorageRemove url]
             else (Inr (entry_summary e), st, []))"

section \<open>Storage frame\<close>






section \<open>The matcher on the expressions of the normalizations\<close>

text \<open>
  The replacements and splits of \<open>normalizeWhitespace\<close>, of the explanation and of the
  lines of a reply, computed by the matcher, agree with their recursive descriptions.
\<close>

declare words_of.simps [simp del] collapse_hspace.simps [simp del]
  squeeze_newlines.simps [simp del]

subsection \<open>Expressions over one class\<close>

lemma rmatch_Chr_Nil: "m_rest s = [] \<Longrightarrow> rmatch (Chr P) s = []"
  by simp

lemma rmatch_Chr_Cons:
  "m_rest s = x # xs \<Longrightarrow>
   rmatch (Chr P) s = (if P x then [s\<lparr>m_prev := Some x, m_rest := xs\<rparr>] else [])"
  by simp

lemma star_empty: "m_rest s = [] \<Longrightarrow> rmatch (Star (Chr P)) s = [s]"
  by simp

lemma star_stop: "m_rest s = x # xs \<Longrightarrow> \<not> P x \<Longrightarrow> rmatch (Star (Chr P)) s = [s]"
  by simp

lemma star_step:
  "m_rest s = x # xs \<Longrightarrow> P x \<Longrightarrow>
   rmatch (Star (Chr P)) s = rmatch (Star (Chr P)) (s\<lparr>m_prev := Some x, m_rest := xs\<rparr>) @ [s]"
  by simp

lemma star_hd:
  "\<exists>st sts. rmatch (Star (Chr P)) s = st # sts \<and> m_rest st = dropWhile P (m_rest s)"
proof (induction "m_rest s" arbitrary: s)
  case Nil
  then show ?case using star_empty [of s P] by simp
next
  case (Cons x xs)
  show ?case
  proof (cases "P x")
    case True
    let ?s' = "s\<lparr>m_prev := Some x, m_rest := xs\<rparr>"
    have "xs = m_rest ?s'" by simp
    from Cons(1) [OF this] obtain st sts
      where st: "rmatch (Star (Chr P)) ?s' = st # sts" "m_rest st = dropWhile P xs"
      by auto
    have "rmatch (Star (Chr P)) s = (st # sts) @ [s]"
      using star_step [where P = P, OF Cons(2) [symmetric] True] st(1) by simp
    moreover have "dropWhile P (m_rest s) = dropWhile P xs"
      using Cons(2) [symmetric] True by simp
    ultimately show ?thesis using st(2) by simp
  next
    case False
    then show ?thesis
      using star_stop [where P = P, OF Cons(2) [symmetric] False] Cons(2) [symmetric] by simp
  qed
qed

lemma star_rests:
  "st \<in> set (rmatch (Star (Chr P)) s) \<Longrightarrow>
   \<exists>k \<le> length (takeWhile P (m_rest s)). m_rest st = drop k (m_rest s)"
proof (induction "m_rest s" arbitrary: s)
  case Nil
  then show ?case using star_empty [of s P] by simp
next
  case (Cons x xs)
  show ?case
  proof (cases "P x")
    case True
    let ?s' = "s\<lparr>m_prev := Some x, m_rest := xs\<rparr>"
    have eq: "rmatch (Star (Chr P)) s = rmatch (Star (Chr P)) ?s' @ [s]"
      using star_step [where P = P, OF Cons(2) [symmetric] True] .
    show ?thesis
    proof (cases "st = s")
      case True
      then show ?thesis by (intro exI [of _ 0]) simp
    next
      case False
      then have "st \<in> set (rmatch (Star (Chr P)) ?s')" using Cons(3) eq by simp
      moreover have "xs = m_rest ?s'" by simp
      ultimately obtain k where k: "k \<le> length (takeWhile P xs)" "m_rest st = drop k xs"
        using Cons(1) [of ?s'] by auto
      show ?thesis
        using k Cons(2) [symmetric] True by (intro exI [of _ "Suc k"]) simp
    qed
  next
    case False
    then have "st = s" using star_stop [where P = P, OF Cons(2) [symmetric] False] Cons(3) by simp
    then show ?thesis by (intro exI [of _ 0]) simp
  qed
qed

lemma plus_none:
  "m_rest s = [] \<or> \<not> P (hd (m_rest s)) \<Longrightarrow> rmatch (Plus (Chr P)) s = []"
  by (cases "m_rest s") (auto simp: Plus_def)

lemma plus_hd:
  assumes "m_rest s = x # xs" and "P x"
  shows "\<exists>st sts. rmatch (Plus (Chr P)) s = st # sts \<and> m_rest st = dropWhile P xs"
proof -
  let ?s' = "s\<lparr>m_prev := Some x, m_rest := xs\<rparr>"
  have "rmatch (Plus (Chr P)) s = rmatch (Star (Chr P)) ?s'"
    using assms by (simp add: Plus_def)
  then show ?thesis using star_hd [of P ?s'] by simp
qed

lemma replace_all_Nil_none:
  "rmatch r \<lparr>m_prev = p, m_rest = [], m_cap = None\<rparr> = [] \<Longrightarrow> re_replace_all r rep p [] = []"
  by (subst re_replace_all.simps) simp

lemma replace_all_skip:
  "rmatch r \<lparr>m_prev = p, m_rest = c # cs, m_cap = None\<rparr> = [] \<Longrightarrow>
   re_replace_all r rep p (c # cs) = c # re_replace_all r rep (Some c) cs"
  by (subst re_replace_all.simps) simp

lemma replace_all_match:
  "rmatch r \<lparr>m_prev = p, m_rest = s, m_cap = None\<rparr> = st # sts \<Longrightarrow>
   length (m_rest st) < length s \<Longrightarrow>
   re_replace_all r rep p s = rep @ re_replace_all r rep (m_prev st) (m_rest st)"
  by (subst re_replace_all.simps) simp










subsection \<open>Words\<close>

lemma words_of_Nil [simp]: "words_of [] = []"
  by (simp add: words_of.simps)

lemma words_of_step:
  assumes "dropWhile is_space s \<noteq> []"
  shows "words_of s = takeWhile (\<lambda>c. \<not> is_space c) (dropWhile is_space s)
           # words_of (dropWhile (\<lambda>c. \<not> is_space c) (dropWhile is_space s))"
  using assms by (subst words_of.simps) (simp add: Let_def)


subsection \<open>Trailing run\<close>

lemma star_eol:
  "rmatch (Seq (Star (Chr P)) Eol) s \<noteq> [] \<longleftrightarrow> list_all P (m_rest s)"
proof (induction "m_rest s" arbitrary: s)
  case Nil
  then show ?case using star_empty [of s P] by simp
next
  case (Cons x xs)
  have rs: "m_rest s = x # xs" using Cons(2) by simp
  show ?case
  proof (cases "P x")
    case False
    have "rmatch (Star (Chr P)) s = [s]" using star_stop [where P = P, OF rs False] .
    then have "rmatch (Seq (Star (Chr P)) Eol) s = []" using rs by simp
    then show ?thesis using rs False by simp
  next
    case True
    let ?s' = "s\<lparr>m_prev := Some x, m_rest := xs\<rparr>"
    have "rmatch (Star (Chr P)) s = rmatch (Star (Chr P)) ?s' @ [s]"
      using star_step [where P = P, OF rs True] .
    then have "rmatch (Seq (Star (Chr P)) Eol) s = rmatch (Seq (Star (Chr P)) Eol) ?s'"
      using rs by simp
    moreover have "xs = m_rest ?s'" by simp
    ultimately show ?thesis using Cons(1) [of ?s'] rs True by simp
  qed
qed

lemma run_eol_rest: "st \<in> set (rmatch (run_eol P) s) \<Longrightarrow> m_rest st = []"
  by (auto simp: run_eol_def split: if_splits)

lemma run_eol_match:
  "rmatch (run_eol P) s \<noteq> [] \<longleftrightarrow> m_rest s \<noteq> [] \<and> list_all P (m_rest s)"
proof (cases "m_rest s")
  case Nil
  then show ?thesis by (simp add: run_eol_def Plus_def)
next
  case (Cons x xs)
  show ?thesis
  proof (cases "P x")
    case False
    then show ?thesis using Cons by (simp add: run_eol_def Plus_def)
  next
    case True
    let ?s' = "s\<lparr>m_prev := Some x, m_rest := xs\<rparr>"
    have "rmatch (run_eol P) s = rmatch (Seq (Star (Chr P)) Eol) ?s'"
      using Cons True by (simp add: run_eol_def Plus_def)
    then show ?thesis using star_eol [of P ?s'] Cons True by simp
  qed
qed

lemma strip_run:
  "\<not> list_all P (c # cs) \<Longrightarrow>
   rev (dropWhile P (rev (c # cs))) = c # rev (dropWhile P (rev cs))"
  by (auto simp: dropWhile_append list_all_iff)

lemma replace_run_eol:
  "re_replace_all (run_eol P) [] p s = rev (dropWhile P (rev s))"
proof (induction s arbitrary: p)
  case Nil
  have "rmatch (run_eol P) \<lparr>m_prev = p, m_rest = [], m_cap = None\<rparr> = []"
    using run_eol_match [of P "\<lparr>m_prev = p, m_rest = [], m_cap = None\<rparr>"] by simp
  then show ?case by (simp add: replace_all_Nil_none)
next
  case (Cons c cs)
  let ?st = "\<lparr>m_prev = p, m_rest = c # cs, m_cap = None\<rparr>"
  show ?case
  proof (cases "list_all P (c # cs)")
    case True
    then have "rmatch (run_eol P) ?st \<noteq> []" using run_eol_match [of P ?st] by simp
    then obtain st sts where st: "rmatch (run_eol P) ?st = st # sts"
      by (cases "rmatch (run_eol P) ?st") auto
    then have rest: "m_rest st = []" using run_eol_rest [of st P ?st] by simp
    have none: "rmatch (run_eol P) \<lparr>m_prev = m_prev st, m_rest = [], m_cap = None\<rparr> = []"
      using run_eol_match [of P "\<lparr>m_prev = m_prev st, m_rest = [], m_cap = None\<rparr>"] by simp
    have "re_replace_all (run_eol P) [] p (c # cs)
        = [] @ re_replace_all (run_eol P) [] (m_prev st) (m_rest st)"
      using st rest by (intro replace_all_match) simp_all
    also have "\<dots> = []" using rest none by (simp add: replace_all_Nil_none)
    finally show ?thesis using True by (simp add: list_all_iff)
  next
    case False
    then have "rmatch (run_eol P) ?st = []" using run_eol_match [of P ?st] by auto
    then have "re_replace_all (run_eol P) [] p (c # cs)
        = c # re_replace_all (run_eol P) [] (Some c) cs"
      by (rule replace_all_skip)
    then show ?thesis using Cons [of "Some c"] strip_run [OF False] by simp
  qed
qed

lemma replace_trailing: "re_replace_all re_trailing [] p s = strip_trailing s"
  by (simp add: re_trailing_def strip_trailing_def replace_run_eol)

subsection \<open>Final period\<close>

lemma search_final_period:
  "re_search re_final_period p pre s =
     (if s \<noteq> [] \<and> last s = 0x2E
      then Some (pre @ butlast s, \<lparr>m_prev = Some 0x2E, m_rest = [], m_cap = None\<rparr>)
      else None)"
proof (induction s arbitrary: p pre)
  case Nil
  then show ?case by (simp add: re_final_period_def)
next
  case (Cons c cs)
  show ?case
  proof (cases "c = 0x2E \<and> cs = []")
    case True
    then show ?thesis by (simp add: re_final_period_def)
  next
    case False
    then have "rmatch re_final_period \<lparr>m_prev = p, m_rest = c # cs, m_cap = None\<rparr> = []"
      by (auto simp: re_final_period_def)
    then have "re_search re_final_period p pre (c # cs)
        = re_search re_final_period (Some c) (pre @ [c]) cs" by simp
    then show ?thesis using Cons [of "Some c" "pre @ [c]"] False by auto
  qed
qed

lemma replace_final_period: "re_replace re_final_period [] s = drop_final_period s"
  by (simp add: re_replace_def re_exec_def search_final_period drop_final_period_def)


subsection \<open>Splitting\<close>

lemma split_Nil: "re_split r p cur [] = [cur]"
  by (subst re_split.simps) simp

lemma split_skip:
  "rmatch r \<lparr>m_prev = p, m_rest = c # cs, m_cap = None\<rparr> = [] \<Longrightarrow>
   re_split r p cur (c # cs) = re_split r (Some c) (cur @ [c]) cs"
  by (subst re_split.simps) simp

lemma split_match:
  "rmatch r \<lparr>m_prev = p, m_rest = c # cs, m_cap = None\<rparr> = st # sts \<Longrightarrow>
   length (m_rest st) < length (c # cs) \<Longrightarrow>
   re_split r p cur (c # cs) = cur # re_split r (m_prev st) [] (m_rest st)"
  by (subst re_split.simps) simp

lemma words_of_drop: "words_of (dropWhile is_space s) = words_of s"
  by (subst words_of.simps, subst (2) words_of.simps) (simp add: Let_def)

lemma words_of_plain:
  assumes "\<forall>c \<in> set w. \<not> is_space c" and "is_space c"
  shows "words_of (w @ c # cs) = (if w = [] then [] else [w]) @ words_of cs"
proof (cases w)
  case Nil
  have "words_of (c # cs) = words_of (dropWhile is_space (c # cs))"
    by (rule words_of_drop [symmetric])
  also have "\<dots> = words_of (dropWhile is_space cs)" using assms(2) by simp
  also have "\<dots> = words_of cs" by (rule words_of_drop)
  finally show ?thesis using Nil by simp
next
  case (Cons x xs)
  have d: "dropWhile is_space (w @ c # cs) = w @ c # cs" using Cons assms(1) by simp
  have t: "takeWhile (\<lambda>c. \<not> is_space c) (w @ c # cs) = w"
    using assms by (simp add: takeWhile_append2)
  have r: "dropWhile (\<lambda>c. \<not> is_space c) (w @ c # cs) = c # cs"
    using assms by (simp add: dropWhile_append2)
  have "words_of (w @ c # cs) = w # words_of (c # cs)"
    using words_of_step [of "w @ c # cs"] d t r by simp
  also have "words_of (c # cs) = words_of (dropWhile is_space (c # cs))"
    by (rule words_of_drop [symmetric])
  also have "\<dots> = words_of (dropWhile is_space cs)" using assms(2) by simp
  also have "\<dots> = words_of cs" by (rule words_of_drop)
  finally show ?thesis using Cons by simp
qed

lemma words_of_single:
  assumes "\<forall>c \<in> set w. \<not> is_space c"
  shows "words_of w = (if w = [] then [] else [w])"
proof (cases w)
  case Nil
  then show ?thesis by simp
next
  case (Cons x xs)
  have d: "dropWhile is_space w = w" using Cons assms by simp
  have t: "takeWhile (\<lambda>c. \<not> is_space c) w = w" using assms by simp
  have r: "dropWhile (\<lambda>c. \<not> is_space c) w = []" using assms by simp
  show ?thesis using words_of_step [of w] d t r Cons by simp
qed

lemma split_spaces_words:
  "\<forall>c \<in> set cur. \<not> is_space c \<Longrightarrow>
   filter (\<lambda>w. w \<noteq> []) (re_split re_spaces p cur s) = words_of (cur @ s)"
proof (induction "length s" arbitrary: s p cur rule: less_induct)
  case less
  show ?case
  proof (cases s)
    case Nil
    then show ?thesis using words_of_single [OF less(2)] by (simp add: split_Nil)
  next
    case (Cons c cs)
    let ?st = "\<lparr>m_prev = p, m_rest = c # cs, m_cap = None\<rparr>"
    show ?thesis
    proof (cases "is_space c")
      case True
      obtain st sts where st: "rmatch re_spaces ?st = st # sts"
        and rest: "m_rest st = dropWhile is_space cs"
        using plus_hd [of ?st c cs is_space] True by (auto simp: re_spaces_def)
      have len: "length (m_rest st) < length (c # cs)"
        using rest length_dropWhile_le [of is_space cs] by simp
      have "re_split re_spaces p cur (c # cs) = cur # re_split re_spaces (m_prev st) [] (m_rest st)"
        using st len by (rule split_match)
      moreover have "filter (\<lambda>w. w \<noteq> []) (re_split re_spaces (m_prev st) [] (m_rest st))
          = words_of ([] @ m_rest st)"
        using len Cons by (intro less(1)) simp_all
      ultimately have "filter (\<lambda>w. w \<noteq> []) (re_split re_spaces p cur s)
          = (if cur = [] then [] else [cur]) @ words_of cs"
        using Cons rest by (simp add: words_of_drop)
      then show ?thesis using words_of_plain [OF less(2) True, of cs] Cons by simp
    next
      case False
      have "rmatch re_spaces ?st = []"
        using plus_none [of ?st is_space] False by (simp add: re_spaces_def)
      then have "re_split re_spaces p cur (c # cs) = re_split re_spaces (Some c) (cur @ [c]) cs"
        by (rule split_skip)
      moreover have "filter (\<lambda>w. w \<noteq> []) (re_split re_spaces (Some c) (cur @ [c]) cs)
          = words_of ((cur @ [c]) @ cs)"
        using less(2) False Cons by (intro less(1)) simp_all
      ultimately show ?thesis using Cons by simp
    qed
  qed
qed

lemma split_words: "filter (\<lambda>w. w \<noteq> []) (str_split re_spaces s) = words_of s"
proof (cases s)
  case Nil
  then show ?thesis by (simp add: str_split_def)
next
  case (Cons c cs)
  then show ?thesis using split_spaces_words [of "[]" None s] by (simp add: str_split_def)
qed

lemma newline_match:
  "rmatch re_newline \<lparr>m_prev = p, m_rest = c # cs, m_cap = None\<rparr> =
     (if c = 0x0A then [\<lparr>m_prev = Some 0x0A, m_rest = cs, m_cap = None\<rparr>]
      else if c = 0x0D \<and> cs \<noteq> [] \<and> hd cs = 0x0A
      then [\<lparr>m_prev = Some 0x0A, m_rest = tl cs, m_cap = None\<rparr>]
      else [])"
  by (cases cs) (auto simp: re_newline_def Opt_def)

lemma split_lines_ne: "split_lines s \<noteq> []"
  by (induction s rule: split_lines.induct) (auto split: list.splits)

lemma split_newline_lines:
  "re_split re_newline p cur s = (cur @ hd (split_lines s)) # tl (split_lines s)"
proof (induction "length s" arbitrary: s p cur rule: less_induct)
  case less
  show ?case
  proof (cases s)
    case Nil
    then show ?thesis by (simp add: split_Nil)
  next
    case (Cons c cs)
    let ?st = "\<lparr>m_prev = p, m_rest = c # cs, m_cap = None\<rparr>"
    consider (lf) "c = 0x0A" | (crlf) "c \<noteq> 0x0A" "c = 0x0D \<and> cs \<noteq> [] \<and> hd cs = 0x0A"
      | (other) "c \<noteq> 0x0A" "\<not> (c = 0x0D \<and> cs \<noteq> [] \<and> hd cs = 0x0A)" by blast
    then show ?thesis
    proof cases
      case lf
      have "rmatch re_newline ?st = [\<lparr>m_prev = Some 0x0A, m_rest = cs, m_cap = None\<rparr>]"
        using lf by (simp add: newline_match)
      then have "re_split re_newline p cur (c # cs) = cur # re_split re_newline (Some 0x0A) [] cs"
        using split_match [of re_newline p c cs _ "[]" cur] by simp
      moreover have "re_split re_newline (Some 0x0A) [] cs
          = ([] @ hd (split_lines cs)) # tl (split_lines cs)"
        using Cons by (intro less) simp
      ultimately show ?thesis using Cons lf split_lines_ne [of cs] by simp
    next
      case crlf
      have "rmatch re_newline ?st = [\<lparr>m_prev = Some 0x0A, m_rest = tl cs, m_cap = None\<rparr>]"
        using crlf by (simp add: newline_match)
      then have "re_split re_newline p cur (c # cs)
          = cur # re_split re_newline (Some 0x0A) [] (tl cs)"
        using split_match [of re_newline p c cs _ "[]" cur] by simp
      moreover have "re_split re_newline (Some 0x0A) [] (tl cs)
          = ([] @ hd (split_lines (tl cs))) # tl (split_lines (tl cs))"
        using Cons crlf by (intro less) (cases cs, simp_all)
      ultimately show ?thesis using Cons crlf split_lines_ne [of "tl cs"] by simp
    next
      case other
      have "rmatch re_newline ?st = []"
        using other by (simp add: newline_match)
      then have "re_split re_newline p cur (c # cs) = re_split re_newline (Some c) (cur @ [c]) cs"
        by (rule split_skip)
      moreover have "re_split re_newline (Some c) (cur @ [c]) cs
          = ((cur @ [c]) @ hd (split_lines cs)) # tl (split_lines cs)"
        using Cons by (intro less) simp
      ultimately show ?thesis
        using Cons other split_lines_ne [of cs] by (cases "split_lines cs") auto
    qed
  qed
qed

lemma split_lines_eq: "str_split re_newline s = split_lines s"
proof (cases s)
  case Nil
  then show ?thesis by (simp add: str_split_def re_newline_def Opt_def)
next
  case (Cons c cs)
  then show ?thesis
    using split_newline_lines [of None "[]" s] split_lines_ne [of s]
    by (simp add: str_split_def del: split_lines.simps)
qed

subsection \<open>The normalizations without the matcher\<close>


lemma normalize_explanation_eq:
  "normalize_explanation e =
     (let explanation = strip_trailing (trim e);
          words = words_of explanation;
          explanation = (if length words > 8 then join [0x20] (take 8 words) else explanation)
      in drop_final_period explanation)"
  by (simp add: normalize_explanation_def replace_trailing split_words replace_final_period)

lemma text_lines_eq:
  "text_lines text = filter (\<lambda>l. l \<noteq> []) (map trim (split_lines text))"
  by (simp add: text_lines_def split_lines_eq)

section \<open>The score\<close>

lemma clampScore_Fin:
  "clampScore (Fin r) = Fin (of_int (max 0 (min 10 \<lfloor>r + 1 / 2\<rfloor>)))"
  by (simp add: clampScore_def isNaN_def of_int_max of_int_min)

lemma clampScore_range:
  "\<exists>k::int. 0 \<le> k \<and> k \<le> 10 \<and> clampScore n = Fin (of_int k)"
proof (cases n)
  case NaN
  then have "clampScore n = Fin (of_int 5)" by (simp add: clampScore_def isNaN_def)
  then show ?thesis by (intro exI [of _ 5]) simp
next
  case NegInf
  then have "clampScore n = Fin (of_int 0)" by (simp add: clampScore_def isNaN_def)
  then show ?thesis by (intro exI [of _ 0]) simp
next
  case PosInf
  then have "clampScore n = Fin (of_int 10)" by (simp add: clampScore_def isNaN_def)
  then show ?thesis by (intro exI [of _ 10]) simp
next
  case (Fin r)
  then show ?thesis
    by (intro exI [of _ "max 0 (min 10 \<lfloor>r + 1 / 2\<rfloor>)"]) (simp add: clampScore_Fin)
qed

lemma to_string_error:
  "to_string P v = Inl e \<Longrightarrow> e = TypeError"
  "join_elems P vs = Inl e \<Longrightarrow> e = TypeError"
  by (induction P v and P vs arbitrary: e and e rule: to_string_join_elems.induct)
     (auto simp: bind_def split: if_splits sum.splits)

lemma to_number_error: "to_number P v = Inl e \<Longrightarrow> e = TypeError"
  by (cases v) (auto simp: bind_def split: sum.splits if_splits dest: to_string_error)

lemma unwrap_array_error: "unwrap_array P parsed = Inl e \<Longrightarrow> e = TypeError"
  by (auto simp: unwrap_array_def bind_def Let_def split: if_splits sum.splits
           dest: to_string_error)

lemma score_of_error: "score_of P parsed = Inl e \<Longrightarrow> e = TypeError"
  unfolding score_of_def Let_def bind_def
  by (auto split: sum.splits dest: to_number_error)

lemma score_of_range:
  "score_of P parsed = Inr s \<Longrightarrow> \<exists>k::int. 0 \<le> k \<and> k \<le> 10 \<and> s = Fin (of_int k)"
  unfolding score_of_def Let_def bind_def
  using clampScore_range by (auto split: sum.splits)

lemma score_of_number:
  "opt_get parsed (js ''privacy_score'') = Num n \<Longrightarrow> score_of P parsed = Inr (clampScore n)"
  by (simp add: score_of_def bind_def)

lemma norm_error: "norm P parsed = Inl e \<Longrightarrow> e = TypeError"
  unfolding norm_def bind_def
  by (auto split: sum.splits dest: unwrap_array_error score_of_error to_string_error)

lemma norm_range:
  "norm P parsed = Inr n \<Longrightarrow> \<exists>k::int. 0 \<le> k \<and> k \<le> 10 \<and> privacy_score n = Fin (of_int k)"
  unfolding norm_def bind_def
  by (auto split: sum.splits dest: score_of_range)

lemma validate_in_range:
  "0 \<le> k \<Longrightarrow> k \<le> 10 \<Longrightarrow> privacy_score n = Fin (of_int k) \<Longrightarrow> validate n = Inr n"
  by (simp add: validate_def)

lemma norm_validate:
  "bind (norm P parsed) validate = Inl TypeError \<or>
   (\<exists>n k. bind (norm P parsed) validate = Inr n \<and> norm P parsed = Inr n \<and>
      (0::int) \<le> k \<and> k \<le> 10 \<and> privacy_score n = Fin (of_int k))"
proof (cases "norm P parsed")
  case (Inl e)
  then show ?thesis using norm_error [OF Inl] by (simp add: bind_def)
next
  case (Inr n)
  from norm_range [OF Inr] obtain k :: int
    where k: "0 \<le> k" "k \<le> 10" "privacy_score n = Fin (of_int k)" by blast
  then have "validate n = Inr n" by (rule validate_in_range)
  with Inr k show ?thesis by (auto simp: bind_def)
qed

lemma summarizePolicy_reply_cases:
  "summarizePolicy_reply P data = Inl TypeError \<or>
   (\<exists>n k. summarizePolicy_reply P data = Inr n \<and> (0::int) \<le> k \<and> k \<le> 10 \<and>
      privacy_score n = Fin (of_int k))"
proof (cases "nullish data")
  case True
  then show ?thesis by (simp add: summarizePolicy_reply_def)
next
  case False
  obtain parsed where "summarizePolicy_reply P data = bind (norm P parsed) validate"
    using False by (simp add: summarizePolicy_reply_def Let_def)
  then show ?thesis using norm_validate [of P parsed] by auto
qed

text \<open>
  C3.  For a finite raw score \<open>r\<close> the clamped score is the integer
  \<open>max 0 (min 10 \<lfloor>r + 1/2\<rfloor>)\<close>, which lies in \<open>[0, 10]\<close>; the infinities go to 0 and
  10; raw score -3 gives 0, 14 gives 10 and 7.6 gives 8.  When the parsed reply carries
  a numeric \<open>privacy_score\<close>, the final score is its clamped value, and whatever the
  strategy the \<open>privacy_score\<close> of every returned record is an integer in \<open>[0, 10]\<close>.
\<close>

theorem score_clamping:
  "(\<exists>k::int. 0 \<le> k \<and> k \<le> 10 \<and> clampScore (Fin r) = Fin (of_int k) \<and>
      k = max 0 (min 10 \<lfloor>r + 1 / 2\<rfloor>)) \<and>
   clampScore NegInf = Fin 0 \<and> clampScore PosInf = Fin 10 \<and>
   clampScore (Fin (- 3)) = Fin 0 \<and> clampScore (Fin 14) = Fin 10 \<and>
   clampScore (Fin (38 / 5)) = Fin 8 \<and>
   (opt_get parsed (js ''privacy_score'') = Num n \<longrightarrow> score_of P parsed = Inr (clampScore n)) \<and>
   (summarizePolicy_reply P data = Inr rec \<longrightarrow>
      (\<exists>k::int. 0 \<le> k \<and> k \<le> 10 \<and> privacy_score rec = Fin (of_int k)))"
proof -
  have a: "\<exists>k::int. 0 \<le> k \<and> k \<le> 10 \<and> clampScore (Fin r) = Fin (of_int k) \<and>
      k = max 0 (min 10 \<lfloor>r + 1 / 2\<rfloor>)"
    by (simp add: clampScore_Fin)
  have b: "clampScore NegInf = Fin 0" "clampScore PosInf = Fin 10"
    by (simp_all add: clampScore_def isNaN_def)
  have c: "clampScore (Fin (- 3)) = Fin 0" "clampScore (Fin 14) = Fin 10"
    "clampScore (Fin (38 / 5)) = Fin 8"
    by (simp_all add: clampScore_Fin floor_eq_iff)
  have d: "summarizePolicy_reply P data = Inr rec \<longrightarrow>
      (\<exists>k::int. 0 \<le> k \<and> k \<le> 10 \<and> privacy_score rec = Fin (of_int k))"
    using summarizePolicy_reply_cases [of P data] by auto
  show ?thesis using a b c d score_of_number by blast
qed

text \<open>
  C9.  For every input, \<open>NaN\<close> included (it gives 5), \<open>clampScore\<close> returns an integer
  in \<open>[0, 10]\<close>, and no reply makes \<open>summarizePolicy\<close> throw
  "privacy_score out of range (must be 0-10)".
\<close>

theorem out_of_range_unreachable:
  "(\<exists>k::int. 0 \<le> k \<and> k \<le> 10 \<and> clampScore score = Fin (of_int k)) \<and>
   clampScore NaN = Fin 5 \<and>
   summarizePolicy_reply P data \<noteq> Inl OutOfRange"
proof -
  have "clampScore NaN = Fin 5" by (simp add: clampScore_def isNaN_def)
  moreover have "summarizePolicy_reply P data \<noteq> Inl OutOfRange"
    using summarizePolicy_reply_cases [of P data] by auto
  ultimately show ?thesis using clampScore_range [of score] by blast
qed

section \<open>Concrete replies\<close>

declare tryParseJsonFromContent.simps [simp del] digits_of.simps [simp del]

lemmas str_defs = js_def is_space_def is_digit_def is_alpha_def is_word_def trimEnd_def trim_def
  startsWith_def endsWith_def lastIndexOf_def slice_def

lemmas re_defs = word_at_def next_char_def Plus_def Opt_def lit_def ci_def word_def word_ci_def
  re_exec_def re_test_def re_replace_def

lemmas json_defs = json_parse_def skip_ws_def json_ws_def parse_number_def parse_fraction_def
  parse_exponent_def digits_value_def escape_char_def

lemmas val_defs = reply_with_def reply_message_def opt_get_def alt_content_def or_else_def
  nullish_else_def bind_def

lemmas expl_defs = normalize_explanation_eq strip_trailing_def drop_final_period_def
  words_of.simps

lemma key_neq:
  "js ''content'' \<noteq> js ''privacy_score''" "js ''content'' \<noteq> js ''score_explanation''"
  "js ''content'' \<noteq> js ''summary''" "js ''privacy_score'' \<noteq> js ''score_explanation''"
  "js ''privacy_score'' \<noteq> js ''summary''" "js ''score_explanation'' \<noteq> js ''summary''"
  "js ''score_explanation'' \<noteq> js ''privacy_score''" "js ''summary'' \<noteq> js ''privacy_score''"
  "js ''summary'' \<noteq> js ''score_explanation''"
  by (simp_all add: js_def)

lemma reply_with_content: "opt_get (reply_message (reply_with c)) (js ''content'') = c"
  by (simp add: val_defs)

lemma reply_with_alt: "alt_content (reply_with c) = Null"
  by (simp add: val_defs js_def)

lemma reply_with_not_nullish: "\<not> nullish (reply_with c)"
  by (simp add: reply_with_def)

theorem score_clamping_witness:
  "opt_get (Obj [(js ''privacy_score'', Num (Fin (38 / 5)))]) (js ''privacy_score'')
     = Num (Fin (38 / 5)) \<and>
   score_of reference_platform (Obj [(js ''privacy_score'', Num (Fin (38 / 5)))]) = Inr (Fin 8) \<and>
   summarizePolicy_reply reference_platform
       (reply_with (Obj [(js ''privacy_score'', Num (Fin (38 / 5)))]))
     = Inr \<lparr>privacy_score = Fin 8, score_explanation = [], summary = []\<rparr> \<and>
   (\<exists>k::int. 0 \<le> k \<and> k \<le> 10 \<and> Fin 8 = Fin (of_int k))"
proof -
  let ?obj = "Obj [(js ''privacy_score'', Num (Fin (38 / 5)))]"
  have g: "opt_get ?obj (js ''privacy_score'') = Num (Fin (38 / 5))"
    by (simp add: opt_get_def)
  have w: "wrapped_inner ?obj = Null"
    by (simp add: wrapped_inner_def js_def)
  have t: "tryParseJsonFromContent reference_platform ?obj = ?obj"
    by (simp add: tryParseJsonFromContent.simps w)
  have c: "clampScore (Fin (38 / 5)) = Fin 8"
    by (simp add: clampScore_Fin floor_eq_iff)
  have e: "normalize_explanation [] = []"
    by (simp add: expl_defs trim_def trimEnd_def)
  have n: "norm reference_platform ?obj
      = Inr \<lparr>privacy_score = Fin 8, score_explanation = [], summary = []\<rparr>"
    by (simp add: norm_def unwrap_content_def unwrap_array_def score_of_def val_defs c e js_def)
  have s: "summarizePolicy_reply reference_platform (reply_with ?obj)
      = Inr \<lparr>privacy_score = Fin 8, score_explanation = [], summary = []\<rparr>"
    by (simp add: summarizePolicy_reply_def val_defs t n validate_def)
  show ?thesis
    using g s c
      score_clamping [where parsed = ?obj and n = "Fin (38 / 5)" and P = reference_platform
        and data = "reply_with ?obj"
        and rec = "\<lparr>privacy_score = Fin 8, score_explanation = [], summary = []\<rparr>"]
    by (simp add: floor_eq_iff)
qed







lemmas score_defs = scorePatterns_def ws_star_def colon_dash_def d12_def out_of_ten_def o_acute_def
  match_score_def parseInt10_def digits_value_def isNaN_def

lemma c6_lines:
  \<open>text_lines (js ''Privacy score: 9/10\<newline>Excessive tracking because of broad third-party sharing.\<newline>\<newline>Summary:\<newline>They collect everything.'')
   = [js ''Privacy score: 9/10'', js ''Excessive tracking because of broad third-party sharing.'',
      js ''Summary:'', js ''They collect everything.'']\<close>
  by (simp add: text_lines_eq str_defs)

lemma c6_strip:
  \<open>stripCodeFences (js ''Privacy score: 9/10\<newline>Excessive tracking because of broad third-party sharing.\<newline>\<newline>Summary:\<newline>They collect everything.'')
   = js ''Privacy score: 9/10\<newline>Excessive tracking because of broad third-party sharing.\<newline>\<newline>Summary:\<newline>They collect everything.''\<close>
  by (simp add: stripCodeFences_def fence_def str_defs)

lemma c6_first: \<open>first_score scorePatterns (js ''Privacy score: 9/10'') = Some (Fin 9)\<close>
  by (simp add: score_defs str_defs re_defs clampScore_Fin floor_eq_iff)

lemma c6_detect:
  \<open>detect_score [js ''Privacy score: 9/10'', js ''Excessive tracking because of broad third-party sharing.'',
      js ''Summary:'', js ''They collect everything.''] 0 = Some (Fin 9, 0)\<close>
  by (simp add: c6_first)

lemma c6_explanation:
  \<open>explanation_of [js ''Privacy score: 9/10'', js ''Excessive tracking because of broad third-party sharing.'',
      js ''Summary:'', js ''They collect everything.''] (Some 0) = js ''Excessive tracking because of broad third-party sharing.''\<close>
  by (simp add: explanation_of_def re_label_def re_number_def re_letter_def re_reason_def
      ws_star_def colon_dash_def d12_def out_of_ten_def str_defs re_defs)

lemma c6_summary:
  \<open>summary_of t [js ''Privacy score: 9/10'', js ''Excessive tracking because of broad third-party sharing.'',
      js ''Summary:'', js ''They collect everything.''] (Some 0) = js ''They collect everything.''\<close>
  by (simp add: summary_of_def section_end_def re_heading_def re_md_heading_def re_score_line_def re_rights_def
      ws_star_def colon_dash_def o_acute_def str_defs re_defs)


lemma c6_no_json:
  \<open>parse_text (P\<lparr>JSON_parse := json_parse\<rparr>)
      (js ''Privacy score: 9/10\<newline>Excessive tracking because of broad third-party sharing.\<newline>\<newline>Summary:\<newline>They collect everything.'')
     = Null\<close>
proof -
  have p: \<open>json_parse (js ''Privacy score: 9/10\<newline>Excessive tracking because of broad third-party sharing.\<newline>\<newline>Summary:\<newline>They collect everything.'') = None\<close>
    by (simp add: json_defs str_defs)
  have i: \<open>indexOf (js ''Privacy score: 9/10\<newline>Excessive tracking because of broad third-party sharing.\<newline>\<newline>Summary:\<newline>They collect everything.'') 0x7B = None\<close>
    by (simp add: js_def)
  show ?thesis by (simp add: parse_text_def c6_strip p i)
qed

lemma c6_extract:
  \<open>extractFromUnstructured
      (Str (js ''Privacy score: 9/10\<newline>Excessive tracking because of broad third-party sharing.\<newline>\<newline>Summary:\<newline>They collect everything.''))
     = Obj [(js ''privacy_score'', Num (Fin 9)),
            (js ''score_explanation'',
             Str (js ''Excessive tracking because of broad third-party sharing.'')),
            (js ''summary'', Str (js ''They collect everything.''))]\<close>
proof -
  have ne: \<open>js ''Excessive tracking because of broad third-party sharing.'' \<noteq> []\<close>
    by (simp add: js_def)
  show ?thesis
    by (simp add: extractFromUnstructured_def Let_def c6_strip c6_lines c6_first
          c6_explanation c6_summary ne)
qed

lemma c6_normalize:
  \<open>normalize_explanation (js ''Excessive tracking because of broad third-party sharing.'')
     = js ''Excessive tracking because of broad third-party sharing''\<close>
  by (simp add: expl_defs str_defs)

lemma c6_norm:
  \<open>norm P (Obj [(js ''privacy_score'', Num (Fin 9)),
                (js ''score_explanation'',
                 Str (js ''Excessive tracking because of broad third-party sharing.'')),
                (js ''summary'', Str (js ''They collect everything.''))])
     = Inr \<lparr>privacy_score = Fin 9,
            score_explanation = js ''Excessive tracking because of broad third-party sharing'',
            summary = js ''They collect everything.''\<rparr>\<close>
proof -
  have cl: "clampScore (Fin 9) = Fin 9" by (simp add: clampScore_Fin floor_eq_iff)
  show ?thesis
    using key_neq
    by (simp add: norm_def unwrap_content_def unwrap_array_def score_of_def val_defs cl
          c6_normalize)
qed

text \<open>
  C6.  The unstructured reply of the claim is normalized, on every platform whose
  \<open>JSON.parse\<close> is \<open>json_parse\<close>, to score 9, the explanation
  "Excessive tracking because of broad third-party sharing", which contains
  "because of broad third-party sharing", and the summary "They collect everything.",
  the line under the heading \<open>Summary:\<close>.
\<close>

theorem unstructured_reply:
  \<open>summarizePolicy_reply (P\<lparr>JSON_parse := json_parse\<rparr>)
      (reply_with (Str (js ''Privacy score: 9/10\<newline>Excessive tracking because of broad third-party sharing.\<newline>\<newline>Summary:\<newline>They collect everything.'')))
     = Inr \<lparr>privacy_score = Fin 9,
            score_explanation = js ''Excessive tracking '' @ js ''because of broad third-party sharing'',
            summary = js ''They collect everything.''\<rparr>\<close>
proof -
  have a: \<open>js ''Excessive tracking '' @ js ''because of broad third-party sharing''
      = js ''Excessive tracking because of broad third-party sharing''\<close>
    by (simp add: js_def)
  show ?thesis
    unfolding a
    by (simp add: summarizePolicy_reply_def Let_def reply_with_content reply_with_alt
          reply_with_not_nullish tryParseJsonFromContent.simps c6_no_json c6_extract c6_norm
          bind_def validate_def)
qed

section \<open>The neutral fallback\<close>













section \<open>Distillation\<close>












lemma squeeze_Nil [simp]: "squeeze_newlines [] = []"
  by (simp add: squeeze_newlines.simps)
















section \<open>The explanation\<close>






















section \<open>Fingerprint\<close>

declare sha_blocks.simps [simp del]





subsection \<open>The test vector \<open>"abc"\<close> of FIPS 180-4\<close>
















subsection \<open>The rendering in hexadecimal\<close>

lemma utf8_example:
  "utf8_encode [0xE9, 0x20AC, 0xD83D, 0xDE00, 0xD800, 0x41]
     = [0xC3, 0xA9, 0xE2, 0x82, 0xAC, 0xF0, 0x9F, 0x98, 0x80, 0xEF, 0xBF, 0xBD, 0x41]"
  by (simp add: utf8_encode_def utf8_bytes_def high_surrogate_def low_surrogate_def)












section \<open>Cache validity\<close>




lemma handle_summarize_miss:
  assumes "getSummary url st = None"
  shows "handle_summarize sp now url body st =
     (case sp body of
        Inl err \<Rightarrow> (Inl err, st, [ProviderCall body])
      | Inr s \<Rightarrow> (Inr s, saveSummary now url s (hashText body) st,
                  [ProviderCall body, StorageSave url]))"
  using assms by (simp add: handle_summarize_def regenerate_def split: sum.splits)



end
